theory Spec2Isabelle
  imports Complex_Main "HOL-Library.Sublist"
begin

section \<open>The log generator, in two variants\<close>

text \<open>
  The repository holds two versions of one program: \<^verbatim>\<open>main.go\<close>, which draws every
  field from a list given in the environment (the fixed allow-list variant), and a second
  file with the same types, which draws the fields from weighted distributions (the
  weighted variant). Names that both files use carry the suffix \<open>_fixed\<close> or
  \<open>_weighted\<close> here; the field \<^verbatim>\<open>Rate\<close> of the fixed variant's configuration is
  \<open>RateF\<close>.

  Go's \<^verbatim>\<open>int\<close> is modelled as \<open>int\<close>; the additions on configured values wrap at
  64 bits (\<open>add64\<close>). A \<^verbatim>\<open>string\<close> is a list of bytes. A \<^verbatim>\<open>panic\<close> is a value of
  type \<open>panic\<close>, and a function that may panic returns \<open>panic + 'a\<close>.
\<close>

subsection \<open>Panics\<close>

datatype panic =
  EnvParse                \<comment> \<open>\<^verbatim>\<open>panic(err)\<close> after \<^verbatim>\<open>env.Parse\<close>\<close>
| DivideByZero            \<comment> \<open>the run-time panic of an integer division by zero\<close>
| NonPositiveInterval     \<comment> \<open>\<^verbatim>\<open>time.NewTicker\<close> on an interval that is not positive\<close>
| InvalidArgument         \<comment> \<open>\<^verbatim>\<open>rand.Intn\<close> on an argument that is not positive\<close>
| IndexOutOfRange         \<comment> \<open>the run-time panic of an index outside a slice\<close>
| Message string          \<comment> \<open>\<^verbatim>\<open>panic("...")\<close> with the text given\<close>

subsection \<open>64-bit integers\<close>

definition wrap64 :: "int \<Rightarrow> int" where
  "wrap64 x = (x + 2 ^ 63) mod 2 ^ 64 - 2 ^ 63"

definition add64 :: "int \<Rightarrow> int \<Rightarrow> int" where
  "add64 a b = wrap64 (a + b)"

text \<open>Go's integer division truncates towards zero and panics on a zero divisor.\<close>

definition quo :: "int \<Rightarrow> int \<Rightarrow> panic + int" where
  "quo a b =
     (if b = 0 then Inl DivideByZero
      else Inr (sgn a * sgn b * (\<bar>a\<bar> div \<bar>b\<bar>)))"

subsection \<open>The random sources\<close>

text \<open>
  Both random sources (\<^verbatim>\<open>math/rand\<close> and the fake-data library's own) are seeded
  from the clock; the program's behaviour is a function of the raw numbers they deliver.
  The state \<open>rng\<close> is that sequence of raw numbers and the count of those already
  consumed; every call of a generator consumes one.
\<close>

record rng =
  draws :: "nat \<Rightarrow> nat"
  used :: nat

definition next_draw :: "rng \<Rightarrow> nat \<times> rng" where
  "next_draw g = (draws g (used g), g\<lparr>used := Suc (used g)\<rparr>)"

definition draw_with :: "(nat \<Rightarrow> 'a) \<Rightarrow> rng \<Rightarrow> 'a \<times> rng" where
  "draw_with f g = (let (r, g') = next_draw g in (f r, g'))"

text \<open>
  \<^verbatim>\<open>rand.Intn(n)\<close>: a number in \<open>[0, n)\<close>; it panics when \<open>n \<le> 0\<close>.
\<close>

definition Intn :: "int \<Rightarrow> rng \<Rightarrow> panic + (int \<times> rng)" where
  "Intn n g =
     (if n \<le> 0 then Inl InvalidArgument
      else Inr (draw_with (\<lambda>r. int r mod n) g))"

text \<open>
  \<^verbatim>\<open>gofakeit.Number(min, max)\<close>: a number in the closed range; equal bounds give
  that bound. The program calls it with \<open>min \<le> max\<close> only (constants, and the path
  bounds after \<open>checkMinMax\<close>); for inverted bounds the model swaps them, as the later
  releases of the library do.
\<close>

definition randIntRange :: "int \<Rightarrow> int \<Rightarrow> nat \<Rightarrow> int" where
  "randIntRange lo hi r =
     (if lo = hi then lo
      else let (lo', hi') = (if lo > hi then (hi, lo) else (lo, hi))
           in lo' + int r mod (hi' - lo' + 1))"

definition Number :: "int \<Rightarrow> int \<Rightarrow> rng \<Rightarrow> int \<times> rng" where
  "Number lo hi g = draw_with (randIntRange lo hi) g"

text \<open>
  \<^verbatim>\<open>gofakeit.RandomString(a)\<close>: an element of \<open>a\<close>, the empty string when \<open>a\<close> is
  empty.
\<close>

definition RandomString :: "string list \<Rightarrow> rng \<Rightarrow> string \<times> rng" where
  "RandomString a g =
     (if a = [] then draw_with (\<lambda>r. []) g
      else draw_with (\<lambda>r. a ! (r mod length a)) g)"

text \<open>
  The other generators of the library produce values from its own tables, which are not
  part of the repository: each is a parameter, a function from the raw number drawn to
  the value produced. \<open>gofakeit_Float64Range\<close> stands for the call with the arguments
  \<open>0.001\<close> and \<open>2.000\<close>, the only one in the program.
\<close>

record gofakeit =
  gofakeit_IPv4Address :: "nat \<Rightarrow> string"
  gofakeit_IPv6Address :: "nat \<Rightarrow> string"
  gofakeit_HTTPMethod :: "nat \<Rightarrow> string"
  gofakeit_HTTPStatusCodeSimple :: "nat \<Rightarrow> int"
  gofakeit_BuzzWord :: "nat \<Rightarrow> string"
  gofakeit_UserAgent :: "nat \<Rightarrow> string"
  gofakeit_UUID :: "nat \<Rightarrow> string"
  gofakeit_DomainName :: "nat \<Rightarrow> string"
  gofakeit_Float64Range :: "nat \<Rightarrow> real"

subsection \<open>Strings\<close>

text \<open>\<^verbatim>\<open>strings.Replace(s, old, new, -1)\<close> for a pattern \<open>old\<close> that is not empty.\<close>

function Replace :: "string \<Rightarrow> string \<Rightarrow> string \<Rightarrow> string" where
  "Replace [] old new = []"
| "Replace (c # cs) old new =
     (if old \<noteq> [] \<and> prefix old (c # cs)
      then new @ Replace (drop (length old) (c # cs)) old new
      else c # Replace cs old new)"
  by pat_completeness auto
termination
  by (relation "measure (\<lambda>(s, old, new). length s)") (auto simp: neq_Nil_conv)

text \<open>\<^verbatim>\<open>strings.TrimPrefix(s, p)\<close>.\<close>

definition TrimPrefix :: "string \<Rightarrow> string \<Rightarrow> string" where
  "TrimPrefix s p = (if prefix p s then drop (length p) s else s)"

text \<open>\<^verbatim>\<open>strings.ToLower\<close>, on the ASCII letters.\<close>

definition lower_char :: "char \<Rightarrow> char" where
  "lower_char c =
     (let n = (of_char c :: nat)
      in if 65 \<le> n \<and> n \<le> 90 then char_of (n + 32) else c)"

definition ToLower :: "string \<Rightarrow> string" where
  "ToLower s = map lower_char s"

text \<open>\<^verbatim>\<open>fmt.Sprintf("%d", n)\<close>: the decimal digits, after a minus sign for a negative.\<close>

definition digit_char :: "nat \<Rightarrow> char" where
  "digit_char d = char_of (48 + d)"

function digits10 :: "nat \<Rightarrow> string" where
  "digits10 n = (if n < 10 then [digit_char n] else digits10 (n div 10) @ [digit_char (n mod 10)])"
  by pat_completeness auto
termination
  by (relation "measure id") auto

definition Sprintf_d :: "int \<Rightarrow> string" where
  "Sprintf_d n = (if n < 0 then CHR ''-'' # digits10 (nat (- n)) else digits10 (nat n))"

subsection \<open>The record emitted\<close>

text \<open>
  The two files declare the same three structs (the weighted variant exports two of the
  names). The time stamp is the clock's reading in nanoseconds.
\<close>

record HTTPInfo =
  RequestID :: string
  Method :: string
  StatusCode :: int
  URL :: string
  Host :: string
  URI :: string
  RequestTime :: real
  UserAgent :: string
  Protocol :: string
  TraceSessionID :: string
  ServerProtocol :: string
  ContentType :: string
  BytesSent :: string

record NginxInfo =
  XForwardFor :: string
  RemoteAddr :: string
  HTTPReferrer :: string

record logEntry =
  Timestamp :: int
  HTTP :: HTTPInfo
  Nginx :: NginxInfo

text \<open>
  \<^verbatim>\<open>time.NewTicker(time.Second / time.Duration(cfg.Rate))\<close>, on the rate as the
  conversion to \<^verbatim>\<open>time.Duration\<close> has truncated it: the interval in nanoseconds.
\<close>

definition time_Second :: int where
  "time_Second = 1000000000"

definition NewTicker :: "int \<Rightarrow> panic + int" where
  "NewTicker d = (if d \<le> 0 then Inl NonPositiveInterval else Inr d)"

definition ticker_of_rate :: "int \<Rightarrow> panic + int" where
  "ticker_of_rate rate =
     (case quo time_Second rate of
        Inl p \<Rightarrow> Inl p
      | Inr d \<Rightarrow> NewTicker d)"

section \<open>The weighted variant\<close>

record config_weighted =
  Rate :: int  \<comment> \<open>\<^verbatim>\<open>time.Duration(cfg.Rate)\<close>\<close>
  IPv4Percent :: int
  StatusOkPercent :: int
  PathMinLength :: int
  PathMaxLength :: int
  PercentageGet :: int
  PercentagePost :: int
  PercentagePut :: int
  PercentagePatch :: int
  PercentageDelete :: int

definition realisticBytesSent_weighted :: "int \<Rightarrow> rng \<Rightarrow> int \<times> rng" where
  "realisticBytesSent_weighted statusCode g =
     (if statusCode \<noteq> 200 then Number 30 120 g
      else Number 800 3100 g)"

definition weightedStatusCode :: "gofakeit \<Rightarrow> int \<Rightarrow> rng \<Rightarrow> int \<times> rng" where
  "weightedStatusCode fk percentageOk g =
     (let (roll, g1) = Number 0 100 g
      in if roll \<le> percentageOk then (200, g1)
         else draw_with (gofakeit_HTTPStatusCodeSimple fk) g1)"

definition method_panic :: panic where
  "method_panic = Message ''HTTP method percentages add up to more than 100%''"

definition weightedHTTPMethod ::
  "gofakeit \<Rightarrow> int \<Rightarrow> int \<Rightarrow> int \<Rightarrow> int \<Rightarrow> int \<Rightarrow> rng \<Rightarrow> panic + (string \<times> rng)" where
  "weightedHTTPMethod fk percentageGet percentagePost percentagePut percentagePatch
       percentageDelete g =
     (let total = add64 (add64 (add64 (add64 percentageGet percentagePost) percentagePut)
                    percentagePatch) percentageDelete
      in if total > 100 then Inl method_panic
         else
           let (roll, g1) = Number 0 100 g
           in if roll \<le> percentageGet then Inr (''GET'', g1)
              else if roll \<le> add64 percentageGet percentagePost then Inr (''POST'', g1)
              else if roll \<le> add64 (add64 percentageGet percentagePost) percentagePut
                then Inr (''PUT'', g1)
              else if roll \<le> add64 (add64 (add64 percentageGet percentagePost) percentagePut)
                            percentagePatch
                then Inr (''PATCH'', g1)
              else if roll \<le> add64 (add64 (add64 (add64 percentageGet percentagePost)
                            percentagePut) percentagePatch) percentageDelete
                then Inr (''DELETE'', g1)
              else Inr (draw_with (gofakeit_HTTPMethod fk) g1))"

definition weightedIPVersion :: "gofakeit \<Rightarrow> int \<Rightarrow> rng \<Rightarrow> string \<times> rng" where
  "weightedIPVersion fk percentageIPv4 g =
     (let (roll, g1) = Number 0 100 g
      in if roll \<le> percentageIPv4 then draw_with (gofakeit_IPv4Address fk) g1
         else draw_with (gofakeit_IPv6Address fk) g1)"

definition separators :: "string list" where
  "separators = [''-'', ''-'', ''_'', ''%20'', ''/'', ''/'', ''/'']"

definition extensions :: "string list" where
  "extensions = [''.html'', ''.php'', ''.htm'', ''.jpg'', ''.png'', ''.gif'', ''.svg'',
     ''.css'', ''.js'']"

text \<open>
  The loop of \<open>randomPath\<close>: \<open>i\<close> counts up to \<open>length\<close>, \<open>path\<close> is the builder's
  content so far.
\<close>

function path_loop :: "gofakeit \<Rightarrow> int \<Rightarrow> int \<Rightarrow> string \<Rightarrow> rng \<Rightarrow> string \<times> rng" where
  "path_loop fk i len path g =
     (if i < len then
        let (path1, g1) =
              (if i > 0 then (let (sep, g') = RandomString separators g in (path @ sep, g'))
               else (path, g));
            (word, g2) = draw_with (gofakeit_BuzzWord fk) g1
        in path_loop fk (i + 1) len (path1 @ word) g2
      else (path, g))"
  by pat_completeness auto
termination
  by (relation "measure (\<lambda>(fk, i, len, path, g). nat (len - i))") auto

definition randomPath :: "gofakeit \<Rightarrow> int \<Rightarrow> int \<Rightarrow> rng \<Rightarrow> string \<times> rng" where
  "randomPath fk min_len max_len g =
     (let (len, g1) = Number min_len max_len g;
          (body, g2) = path_loop fk 0 len ''/'' g1;
          (ext, g3) = RandomString extensions g2;
          result = body @ ext
      in (Replace result '' '' ''%20'', g3))"

definition checkMinMax :: "int \<Rightarrow> int \<Rightarrow> int \<times> int" where
  "checkMinMax min0 max0 =
     (let min1 = (if min0 < 1 then 1 else min0);
          max1 = (if max0 < 1 then 1 else max0)
      in if min1 > max1 then (max1, min1) else (min1, max1))"


text \<open>
  One iteration of the loop over the ticker: the fields are drawn in the order of the
  source and the record is assembled. \<^verbatim>\<open>json.Marshal\<close> has no error on a record of
  strings, integers and a finite float, so every record assembled is printed; the record
  stands for its line (the fixed prefix and the JSON encoding).
\<close>

definition and_then :: "panic + 'a \<Rightarrow> ('a \<Rightarrow> panic + 'b) \<Rightarrow> panic + 'b" where
  "and_then m f = (case m of Inl p \<Rightarrow> Inl p | Inr x \<Rightarrow> f x)"

definition tick_weighted ::
  "gofakeit \<Rightarrow> config_weighted \<Rightarrow> int \<Rightarrow> rng \<Rightarrow> panic + (logEntry \<times> rng)" where
  "tick_weighted fk cfg timeLocal g =
     (let (ip, g1) = weightedIPVersion fk (IPv4Percent cfg) g
      in and_then
           (weightedHTTPMethod fk (PercentageGet cfg) (PercentagePost cfg) (PercentagePut cfg)
              (PercentagePatch cfg) (PercentageDelete cfg) g1)
           (\<lambda>(httpMethod, g2).
              let (path, g3) = randomPath fk (PathMinLength cfg) (PathMaxLength cfg) g2;
                  (statusCode, g4) = weightedStatusCode fk (StatusOkPercent cfg) g3;
                  (bodyBytesSent, g5) = realisticBytesSent_weighted statusCode g4;
                  (userAgent, g6) = draw_with (gofakeit_UserAgent fk) g5;
                  (uuid, g7) = draw_with (gofakeit_UUID fk) g6;
                  requestID = ToLower uuid;
                  (host, g8) = draw_with (gofakeit_DomainName fk) g7;
                  (refHost, g9) = draw_with (gofakeit_DomainName fk) g8;
                  (refPath, g10) = randomPath fk (PathMinLength cfg) (PathMaxLength cfg) g9;
                  httpReferrer = ''http://'' @ refHost @ refPath;
                  (requestTime, g11) = draw_with (gofakeit_Float64Range fk) g10
              in Inr
                   (\<lparr>Timestamp = timeLocal,
                     HTTP = \<lparr>RequestID = requestID,
                       Method = httpMethod,
                       StatusCode = statusCode,
                       URL = host @ ''/'' @ TrimPrefix path ''/'',
                       Host = host,
                       URI = path,
                       RequestTime = requestTime,
                       UserAgent = userAgent,
                       Protocol = ''HTTP/1.1'',
                       TraceSessionID = [],
                       ServerProtocol = ''HTTP/1.1'',
                       ContentType = ''application/json'',
                       BytesSent = Sprintf_d bodyBytesSent\<rparr>,
                     Nginx = \<lparr>XForwardFor = ip,
                       RemoteAddr = [],
                       HTTPReferrer = httpReferrer\<rparr>\<rparr>,
                    g11)))"

text \<open>
  The loop \<^verbatim>\<open>for range ticker.C\<close> has no exit: the process runs until it panics or is
  killed. A run is observed over the ticks delivered so far, each with the reading of
  \<^verbatim>\<open>time.Now()\<close>; the result is the panic, if any, and the records printed.
\<close>

fun loop_weighted ::
  "gofakeit \<Rightarrow> config_weighted \<Rightarrow> rng \<Rightarrow> int list \<Rightarrow> logEntry list
     \<Rightarrow> panic option \<times> logEntry list" where
  "loop_weighted fk cfg g [] out = (None, out)"
| "loop_weighted fk cfg g (timeLocal # ticks) out =
     (case tick_weighted fk cfg timeLocal g of
        Inl p \<Rightarrow> (Some p, out)
      | Inr (entry, g') \<Rightarrow> loop_weighted fk cfg g' ticks (out @ [entry]))"

text \<open>
  \<open>main\<close> of the weighted variant. The argument \<open>parsed\<close> is the result of
  \<^verbatim>\<open>env.Parse\<close> (\<open>None\<close> for an error), \<open>g\<close> the random source as seeded.
\<close>

definition main_weighted ::
  "gofakeit \<Rightarrow> config_weighted option \<Rightarrow> rng \<Rightarrow> int list \<Rightarrow> panic option \<times> logEntry list" where
  "main_weighted fk parsed g ticks =
     (case parsed of
        None \<Rightarrow> (Some EnvParse, [])
      | Some cfg0 \<Rightarrow>
          let (min1, max1) = checkMinMax (PathMinLength cfg0) (PathMaxLength cfg0);
              cfg = cfg0\<lparr>PathMinLength := min1, PathMaxLength := max1\<rparr>
          in (case ticker_of_rate (Rate cfg) of
                Inl p \<Rightarrow> (Some p, [])
              | Inr ticker \<Rightarrow> loop_weighted fk cfg g ticks []))"

section \<open>The fixed allow-list variant\<close>

record config_fixed =
  RateF :: int  \<comment> \<open>the field \<^verbatim>\<open>Rate\<close>, as \<^verbatim>\<open>time.Duration(cfg.Rate)\<close>\<close>
  IPAddresses :: string
  HTTPMethods :: string
  Paths :: string
  StatusCodes :: string
  Hosts :: string

subsection \<open>Parsing the lists\<close>

text \<open>
  \<^verbatim>\<open>strings.TrimSpace\<close> removes the leading and the trailing white space, as Unicode
  defines it; these are the UTF-8 encodings of the white-space characters.
\<close>

definition white_space :: "string list" where
  "white_space =
     [[CHR 0x09], [CHR 0x0A], [CHR 0x0B], [CHR 0x0C], [CHR 0x0D], [CHR 0x20],
      [CHR 0xC2, CHR 0x85], [CHR 0xC2, CHR 0xA0], [CHR 0xE1, CHR 0x9A, CHR 0x80],
      [CHR 0xE2, CHR 0x80, CHR 0x80], [CHR 0xE2, CHR 0x80, CHR 0x81],
      [CHR 0xE2, CHR 0x80, CHR 0x82], [CHR 0xE2, CHR 0x80, CHR 0x83],
      [CHR 0xE2, CHR 0x80, CHR 0x84], [CHR 0xE2, CHR 0x80, CHR 0x85],
      [CHR 0xE2, CHR 0x80, CHR 0x86], [CHR 0xE2, CHR 0x80, CHR 0x87],
      [CHR 0xE2, CHR 0x80, CHR 0x88], [CHR 0xE2, CHR 0x80, CHR 0x89],
      [CHR 0xE2, CHR 0x80, CHR 0x8A], [CHR 0xE2, CHR 0x80, CHR 0xA8],
      [CHR 0xE2, CHR 0x80, CHR 0xA9], [CHR 0xE2, CHR 0x80, CHR 0xAF],
      [CHR 0xE2, CHR 0x81, CHR 0x9F], [CHR 0xE3, CHR 0x80, CHR 0x80]]"

definition leading_space :: "string \<Rightarrow> string option" where
  "leading_space s = find (\<lambda>w. prefix w s) white_space"

definition trailing_space :: "string \<Rightarrow> string option" where
  "trailing_space s = find (\<lambda>w. suffix w s) white_space"

function TrimLeft :: "string \<Rightarrow> string" where
  "TrimLeft s =
     (case leading_space s of
        None \<Rightarrow> s
      | Some w \<Rightarrow> TrimLeft (drop (length w) s))"
  by pat_completeness auto
termination
proof (relation "measure length")
  show "wf (measure length)" by simp
next
  fix s w :: string
  assume "leading_space s = Some w"
  then have "w \<in> set white_space" and "prefix w s"
    by (auto simp: leading_space_def find_Some_iff)
  then have "w \<noteq> []" and "length w \<le> length s"
    by (auto simp: white_space_def prefix_length_le)
  then show "(drop (length w) s, s) \<in> measure length"
    by (cases w) auto
qed

function TrimRight :: "string \<Rightarrow> string" where
  "TrimRight s =
     (case trailing_space s of
        None \<Rightarrow> s
      | Some w \<Rightarrow> TrimRight (take (length s - length w) s))"
  by pat_completeness auto
termination
proof (relation "measure length")
  show "wf (measure length)" by simp
next
  fix s w :: string
  assume "trailing_space s = Some w"
  then have "w \<in> set white_space" and "suffix w s"
    by (auto simp: trailing_space_def find_Some_iff)
  then have "w \<noteq> []" and "length w \<le> length s"
    by (auto simp: white_space_def suffix_length_le)
  then show "(take (length s - length w) s, s) \<in> measure length"
    by (cases w) auto
qed

definition TrimSpace :: "string \<Rightarrow> string" where
  "TrimSpace s = TrimRight (TrimLeft s)"

text \<open>
  \<^verbatim>\<open>strings.Split(s, sep)\<close> for a separator of one byte: the pieces between the
  separators, one more than there are separators. \<open>cur\<close> is the piece being read,
  reversed.
\<close>

fun split_from :: "char \<Rightarrow> string \<Rightarrow> string \<Rightarrow> string list" where
  "split_from sep cur [] = [rev cur]"
| "split_from sep cur (c # cs) =
     (if c = sep then rev cur # split_from sep [] cs
      else split_from sep (c # cur) cs)"

definition Split :: "string \<Rightarrow> char \<Rightarrow> string list" where
  "Split s sep = split_from sep [] s"

text \<open>
  \<^verbatim>\<open>strconv.Atoi\<close>: an optional sign and decimal digits, at least one, whose value
  fits 64 bits; \<open>None\<close> stands for a result with an error.
\<close>

definition is_digit :: "char \<Rightarrow> bool" where
  "is_digit c = (let n = (of_char c :: nat) in 48 \<le> n \<and> n \<le> 57)"

definition digit_value :: "char \<Rightarrow> nat" where
  "digit_value c = of_char c - 48"

definition decimal :: "string \<Rightarrow> nat" where
  "decimal ds = foldl (\<lambda>n c. 10 * n + digit_value c) 0 ds"

definition Atoi :: "string \<Rightarrow> int option" where
  "Atoi s =
     (let (neg, ds) =
            (case s of
               [] \<Rightarrow> (False, [])
             | c # cs \<Rightarrow>
                 if c = CHR ''-'' then (True, cs)
                 else if c = CHR ''+'' then (False, cs)
                 else (False, s))
      in if ds = [] \<or> \<not> list_all is_digit ds then None
         else
           let n = (if neg then - int (decimal ds) else int (decimal ds))
           in if - (2 ^ 63) \<le> n \<and> n < 2 ^ 63 then Some n else None)"

definition parseEnvList :: "string \<Rightarrow> string list" where
  "parseEnvList envVar =
     (if envVar = [] then []
      else Split (TrimSpace envVar) CHR '','')"

fun int_parts :: "string list \<Rightarrow> int list \<Rightarrow> int list" where
  "int_parts [] result = result"
| "int_parts (part # parts) result =
     (case Atoi (TrimSpace part) of
        Some val \<Rightarrow> int_parts parts (result @ [val])
      | None \<Rightarrow> int_parts parts result)"

definition parseEnvIntList :: "string \<Rightarrow> int list" where
  "parseEnvIntList envVar =
     (if envVar = [] then []
      else int_parts (Split (TrimSpace envVar) CHR '','') [])"

subsection \<open>Generating\<close>

definition realisticBytesSent_fixed :: "int \<Rightarrow> rng \<Rightarrow> panic + (int \<times> rng)" where
  "realisticBytesSent_fixed statusCode g =
     (if statusCode \<ge> 400
      then and_then (Intn (120 - 30) g) (\<lambda>(n, g'). Inr (n + 30, g'))
      else and_then (Intn (3100 - 800) g) (\<lambda>(n, g'). Inr (n + 800, g')))"

text \<open>\<^verbatim>\<open>list[rand.Intn(len(list))]\<close>.\<close>

definition pick :: "'a list \<Rightarrow> rng \<Rightarrow> panic + ('a \<times> rng)" where
  "pick xs g =
     and_then (Intn (int (length xs)) g)
       (\<lambda>(i, g'). if 0 \<le> i \<and> nat i < length xs then Inr (xs ! nat i, g')
                   else Inl IndexOutOfRange)"

record lists =
  ipList :: "string list"
  methodList :: "string list"
  pathList :: "string list"
  statusCodeList :: "int list"
  hostList :: "string list"

definition tick_fixed :: "gofakeit \<Rightarrow> lists \<Rightarrow> int \<Rightarrow> rng \<Rightarrow> panic + (logEntry \<times> rng)" where
  "tick_fixed fk ls timeLocal g =
     and_then (pick (ipList ls) g) (\<lambda>(ip, g1).
     and_then (pick (methodList ls) g1) (\<lambda>(httpMethod, g2).
     and_then (pick (pathList ls) g2) (\<lambda>(path, g3).
     and_then (pick (statusCodeList ls) g3) (\<lambda>(statusCode, g4).
     and_then (pick (hostList ls) g4) (\<lambda>(host, g5).
     and_then (realisticBytesSent_fixed statusCode g5) (\<lambda>(bodyBytesSent, g6).
       let (userAgent, g7) = draw_with (gofakeit_UserAgent fk) g6;
           (uuid, g8) = draw_with (gofakeit_UUID fk) g7;
           requestID = ToLower uuid;
           (requestTime, g9) = draw_with (gofakeit_Float64Range fk) g8
       in Inr
            (\<lparr>Timestamp = timeLocal,
              HTTP = \<lparr>RequestID = requestID,
                Method = httpMethod,
                StatusCode = statusCode,
                URL = host @ ''/'' @ TrimPrefix path ''/'',
                Host = host,
                URI = path,
                RequestTime = requestTime,
                UserAgent = userAgent,
                Protocol = ''HTTP/1.1'',
                TraceSessionID = [],
                ServerProtocol = ''HTTP/1.1'',
                ContentType = ''application/json'',
                BytesSent = Sprintf_d bodyBytesSent\<rparr>,
              Nginx = \<lparr>XForwardFor = ip,
                RemoteAddr = ip,
                HTTPReferrer = []\<rparr>\<rparr>,
             g9)))))))"

fun loop_fixed ::
  "gofakeit \<Rightarrow> lists \<Rightarrow> rng \<Rightarrow> int list \<Rightarrow> logEntry list \<Rightarrow> panic option \<times> logEntry list" where
  "loop_fixed fk ls g [] out = (None, out)"
| "loop_fixed fk ls g (timeLocal # ticks) out =
     (case tick_fixed fk ls timeLocal g of
        Inl p \<Rightarrow> (Some p, out)
      | Inr (entry, g') \<Rightarrow> loop_fixed fk ls g' ticks (out @ [entry]))"

definition main_fixed ::
  "gofakeit \<Rightarrow> config_fixed option \<Rightarrow> rng \<Rightarrow> int list \<Rightarrow> panic option \<times> logEntry list" where
  "main_fixed fk parsed g ticks =
     (case parsed of
        None \<Rightarrow> (Some EnvParse, [])
      | Some cfg \<Rightarrow>
          (case ticker_of_rate (RateF cfg) of
             Inl p \<Rightarrow> (Some p, [])
           | Inr ticker \<Rightarrow>
               let ls = \<lparr>ipList = parseEnvList (IPAddresses cfg),
                          methodList = parseEnvList (HTTPMethods cfg),
                          pathList = parseEnvList (Paths cfg),
                          statusCodeList = parseEnvIntList (StatusCodes cfg),
                          hostList = parseEnvList (Hosts cfg)\<rparr>
               in if length (ipList ls) = 0 then
                    (Some (Message
                       ''IP_ADDRESSES environment variable must be set with at least one IP address''),
                     [])
                  else if length (methodList ls) = 0 then
                    (Some (Message
                       ''HTTP_METHODS environment variable must be set with at least one HTTP method''),
                     [])
                  else if length (pathList ls) = 0 then
                    (Some (Message
                       ''PATHS environment variable must be set with at least one path''),
                     [])
                  else if length (statusCodeList ls) = 0 then
                    (Some (Message
                       ''STATUS_CODES environment variable must be set with at least one status code''),
                     [])
                  else if length (hostList ls) = 0 then
                    (Some (Message
                       ''HOSTS environment variable must be set with at least one host''),
                     [])
                  else loop_fixed fk ls g ticks []))"

section \<open>Auxiliary definitions\<close>

text \<open>The five lists, as \<open>main\<close> of the fixed variant parses them.\<close>

definition env_lists :: "config_fixed \<Rightarrow> lists" where
  "env_lists cfg =
     \<lparr>ipList = parseEnvList (IPAddresses cfg),
      methodList = parseEnvList (HTTPMethods cfg),
      pathList = parseEnvList (Paths cfg),
      statusCodeList = parseEnvIntList (StatusCodes cfg),
      hostList = parseEnvList (Hosts cfg)\<rparr>"

text \<open>
  The weighted choice in the words of the specification: the first label whose cumulative
  threshold is greater than or equal to the roll; \<open>None\<close> when no threshold is reached.
  It is compared below with the three functions of the source.
\<close>

definition spec_first_label :: "int \<Rightarrow> ('a \<times> int) list \<Rightarrow> 'a option" where
  "spec_first_label roll pairs =
     map_option fst (find (\<lambda>(label, threshold). threshold \<ge> roll) pairs)"

text \<open>The random source \<open>g\<close> with its next raw number set to \<open>r\<close>.\<close>

definition next_is :: "nat \<Rightarrow> rng \<Rightarrow> rng" where
  "next_is r g = g\<lparr>draws := (draws g)(used g := r)\<rparr>"

subsection \<open>Example inputs\<close>

text \<open>
  A provider, a random source and three configurations, for the concrete instances
  below: the weights of \<open>example_weights\<close> total 120, those of \<open>example_config\<close> 90.
\<close>

definition example_provider :: gofakeit where
  "example_provider =
     \<lparr>gofakeit_IPv4Address = (\<lambda>n. ''192.0.2.7''),
      gofakeit_IPv6Address = (\<lambda>n. ''2001:db8::1''),
      gofakeit_HTTPMethod = (\<lambda>n. ''HEAD''),
      gofakeit_HTTPStatusCodeSimple = (\<lambda>n. 404),
      gofakeit_BuzzWord = (\<lambda>n. ''24 hour''),
      gofakeit_UserAgent = (\<lambda>n. ''curl/8.0''),
      gofakeit_UUID = (\<lambda>n. ''AB12''),
      gofakeit_DomainName = (\<lambda>n. ''example.org''),
      gofakeit_Float64Range = (\<lambda>n. 1 / 2)\<rparr>"

definition example_source :: rng where
  "example_source = \<lparr>draws = (\<lambda>n. 7 * n + 3), used = 0\<rparr>"

definition example_weights :: config_weighted where
  "example_weights =
     \<lparr>Rate = 1, IPv4Percent = 100, StatusOkPercent = 80, PathMinLength = 1,
      PathMaxLength = 5, PercentageGet = 70, PercentagePost = 50, PercentagePut = 0,
      PercentagePatch = 0, PercentageDelete = 0\<rparr>"

definition example_config :: config_weighted where
  "example_config =
     \<lparr>Rate = 1, IPv4Percent = 100, StatusOkPercent = 80, PathMinLength = 1,
      PathMaxLength = 5, PercentageGet = 60, PercentagePost = 30, PercentagePut = 0,
      PercentagePatch = 0, PercentageDelete = 0\<rparr>"

definition example_lists :: config_fixed where
  "example_lists =
     \<lparr>RateF = 1, IPAddresses = ''10.0.0.1'', HTTPMethods = ''GET'', Paths = ''/a,/b'',
      StatusCodes = ''200,301,404'', Hosts = ''h.example''\<rparr>"

section \<open>Properties\<close>

declare path_loop.simps [simp del]
declare digits10.simps [simp del]
declare TrimLeft.simps [simp del]
declare TrimRight.simps [simp del]

subsection \<open>Arithmetic and the random sources\<close>

lemma wrap64_id: "- (2 ^ 63) \<le> x \<Longrightarrow> x < 2 ^ 63 \<Longrightarrow> wrap64 x = x"
  by (simp add: wrap64_def)

lemma wrap64_wrap64_add: "wrap64 (wrap64 a + b) = wrap64 (a + b)"
proof -
  have "(wrap64 a + b + 2 ^ 63) mod 2 ^ 64 = (a + b + 2 ^ 63) mod (2 ^ 64 :: int)"
    unfolding wrap64_def by (simp add: mod_simps algebra_simps)
  then show ?thesis by (simp add: wrap64_def)
qed

lemma add64_chain:
  "add64 (add64 (add64 (add64 a b) c) d) e = wrap64 (a + b + c + d + e)"
  by (simp add: add64_def wrap64_wrap64_add)

text \<open>Weights of a magnitude below \<open>2\<^sup>6\<^sup>0\<close> total without wrapping.\<close>

lemma total_exact:
  assumes "\<bar>a\<bar> < 2 ^ 60" and "\<bar>b\<bar> < 2 ^ 60" and "\<bar>c\<bar> < 2 ^ 60" and "\<bar>d\<bar> < 2 ^ 60"
    and "\<bar>e\<bar> < 2 ^ 60"
  shows "wrap64 (a + b + c + d + e) = a + b + c + d + e"
  using assms by (intro wrap64_id) simp_all

lemma Number_range:
  assumes "lo \<le> hi"
  shows "lo \<le> fst (Number lo hi g) \<and> fst (Number lo hi g) \<le> hi"
proof (cases "lo = hi")
  case True
  then show ?thesis
    by (simp add: Number_def draw_with_def next_draw_def randIntRange_def)
next
  case False
  with assms have pos: "0 < hi - lo + 1" by simp
  have "0 \<le> int (draws g (used g)) mod (hi - lo + 1)"
    using pos by simp
  moreover have "int (draws g (used g)) mod (hi - lo + 1) \<le> hi - lo"
    using pos pos_mod_bound [of "hi - lo + 1" "int (draws g (used g))"] by linarith
  ultimately show ?thesis
    using False assms
    by (simp add: Number_def draw_with_def next_draw_def randIntRange_def)
qed

lemma Intn_range:
  assumes "0 < n"
  shows "\<exists>k g'. Intn n g = Inr (k, g') \<and> 0 \<le> k \<and> k < n"
  using assms by (simp add: Intn_def draw_with_def next_draw_def)

subsection \<open>Path bounds\<close>

text \<open>
  C5. For every pair of configured path-length bounds, \<open>checkMinMax\<close> yields bounds
  \<open>min'\<close> and \<open>max'\<close> with \<open>1 \<le> min' \<le> max'\<close>: a bound below 1 is raised to 1, and
  when \<open>min > max\<close> the two (so raised) are exchanged; no pair is an error.
\<close>

theorem checkMinMax_normalises:
  assumes "checkMinMax min0 max0 = (min', max')"
  shows "1 \<le> min' \<and> min' \<le> max' \<and>
         (min', max') =
           (if min0 > max0 then (max 1 max0, max 1 min0) else (max 1 min0, max 1 max0))"
  using assms by (auto simp: checkMinMax_def Let_def split: if_splits)

theorem checkMinMax_normalises_witness:
  "checkMinMax 5 0 = (1, 5) \<and> checkMinMax 7 3 = (3, 7) \<and> (1::int) \<le> 1 \<and> (1::int) \<le> 5 \<and>
   ((1::int), (5::int)) = (max 1 0, max 1 5)"
proof -
  have eq: "checkMinMax 5 0 = (1, 5)"
    by (simp add: checkMinMax_def)
  show ?thesis
    using checkMinMax_normalises [OF eq] by (simp add: checkMinMax_def)
qed

subsection \<open>Paths\<close>

lemma Replace_space:
  "Replace s '' '' new = concat (map (\<lambda>c. if c = CHR '' '' then new else [c]) s)"
  by (induction s) auto

lemma path_loop_extends:
  "\<exists>rest. fst (path_loop fk i len path g) = path @ rest"
proof (induction fk i len path g rule: path_loop.induct)
  case (1 fk i len path g)
  show ?case
  proof (cases "i < len")
    case False
    then show ?thesis by (simp add: path_loop.simps)
  next
    case True
    obtain path1 g1 where step1:
      "(if i > 0 then (let (sep, g') = RandomString separators g in (path @ sep, g'))
        else (path, g)) = (path1, g1)"
      by (cases "(if i > 0 then (let (sep, g') = RandomString separators g in (path @ sep, g'))
        else (path, g))") 
    obtain word g2 where step2: "draw_with (gofakeit_BuzzWord fk) g1 = (word, g2)"
      by (cases "draw_with (gofakeit_BuzzWord fk) g1")
    have ext1: "\<exists>r. path1 = path @ r"
      using step1 by (auto split: if_splits prod.splits)
    from "1.IH" [OF True step1 [symmetric] refl step2 [symmetric] refl]
    obtain rest where "fst (path_loop fk (i + 1) len (path1 @ word) g2) = (path1 @ word) @ rest"
      by blast
    moreover have "path_loop fk i len path g = path_loop fk (i + 1) len (path1 @ word) g2"
      using True step1 step2 by (subst path_loop.simps) simp
    ultimately show ?thesis using ext1 by auto
  qed
qed

lemma RandomString_mem:
  "a \<noteq> [] \<Longrightarrow> fst (RandomString a g) \<in> set a"
  by (simp add: RandomString_def draw_with_def next_draw_def)

lemma extensions_no_space: "e \<in> set extensions \<Longrightarrow> CHR '' '' \<notin> set e"
  by (auto simp: extensions_def)

lemma encode_no_space:
  "CHR '' '' \<notin> set (concat (map (\<lambda>c. if c = CHR '' '' then ''%20'' else [c]) s))"
  by (induction s) auto

lemma encode_id:
  "CHR '' '' \<notin> set s \<Longrightarrow> concat (map (\<lambda>c. if c = CHR '' '' then new else [c]) s) = s"
  by (induction s) auto

lemma randomPath_form:
  "\<exists>rest e. e \<in> set extensions \<and>
     fst (randomPath fk min_len max_len g) = Replace ((''/'' @ rest) @ e) '' '' ''%20''"
proof -
  obtain len g1 where n: "Number min_len max_len g = (len, g1)"
    by (cases "Number min_len max_len g")
  obtain body g2 where b: "path_loop fk 0 len ''/'' g1 = (body, g2)"
    by (cases "path_loop fk 0 len ''/'' g1")
  obtain e g3 where e: "RandomString extensions g2 = (e, g3)"
    by (cases "RandomString extensions g2")
  from path_loop_extends [of fk 0 len "''/''" g1] b obtain rest where "body = ''/'' @ rest"
    by auto
  moreover have "e \<in> set extensions"
    using RandomString_mem [of extensions g2] e by (simp add: extensions_def)
  moreover have "fst (randomPath fk min_len max_len g) = Replace (body @ e) '' '' ''%20''"
    by (simp add: randomPath_def n b e)
  ultimately show ?thesis by blast
qed

text \<open>
  C4. For all path-length bounds with \<open>1 \<le> min \<le> max\<close>, every string that
  \<open>randomPath\<close> returns starts with \<open>/\<close>, holds no space (\<open>Replace\<close> has turned
  each into \<open>%20\<close>) and ends with one of the nine extensions.
\<close>

theorem randomPath_shape:
  assumes "1 \<le> min_len" and "min_len \<le> max_len"
  shows "prefix ''/'' (fst (randomPath fk min_len max_len g)) \<and>
         CHR '' '' \<notin> set (fst (randomPath fk min_len max_len g)) \<and>
         (\<exists>e \<in> set extensions. suffix e (fst (randomPath fk min_len max_len g)))"
proof -
  from randomPath_form [of fk min_len max_len g] obtain rest e where
    e: "e \<in> set extensions" and
    p: "fst (randomPath fk min_len max_len g) = Replace ((''/'' @ rest) @ e) '' '' ''%20''"
    by blast
  let ?enc = "\<lambda>s. concat (map (\<lambda>c. if c = CHR '' '' then ''%20'' else [c]) s)"
  have form: "fst (randomPath fk min_len max_len g) = ''/'' @ ?enc rest @ e"
    using p encode_id [OF extensions_no_space [OF e]] by (simp add: Replace_space)
  have "prefix ''/'' (fst (randomPath fk min_len max_len g))"
    unfolding form by (simp add: prefix_def)
  moreover have "CHR '' '' \<notin> set (fst (randomPath fk min_len max_len g))"
    unfolding p Replace_space by (rule encode_no_space)
  moreover have "suffix e (fst (randomPath fk min_len max_len g))"
    unfolding form by (simp add: suffix_def)
  ultimately show ?thesis using e by blast
qed

lemma randomPath_example:
  "fst (randomPath example_provider 2 3 example_source) = ''/24%20hour%2024%20hour%2024%20hour.html''"
  by (simp add: randomPath_def Number_def draw_with_def next_draw_def randIntRange_def
      example_source_def example_provider_def path_loop.simps RandomString_def
      separators_def extensions_def)

theorem randomPath_shape_witness:
  "(1::int) \<le> 2 \<and> (2::int) \<le> 3 \<and>
   fst (randomPath example_provider 2 3 example_source) = ''/24%20hour%2024%20hour%2024%20hour.html'' \<and>
   prefix ''/'' (fst (randomPath example_provider 2 3 example_source)) \<and>
   CHR '' '' \<notin> set (fst (randomPath example_provider 2 3 example_source)) \<and>
   (\<exists>e \<in> set extensions. suffix e (fst (randomPath example_provider 2 3 example_source)))"
proof -
  have "prefix ''/'' (fst (randomPath example_provider 2 3 example_source)) \<and>
        CHR '' '' \<notin> set (fst (randomPath example_provider 2 3 example_source)) \<and>
        (\<exists>e \<in> set extensions. suffix e (fst (randomPath example_provider 2 3 example_source)))"
    using randomPath_shape [of 2 3 example_provider example_source] by simp
  then show ?thesis
    using randomPath_example by simp
qed

subsection \<open>Decimal strings and byte counts\<close>

lemma is_digit_digit_char: "d < 10 \<Longrightarrow> is_digit (digit_char d)"
  by (simp add: is_digit_def digit_char_def Let_def)

lemma digit_value_digit_char: "d < 10 \<Longrightarrow> digit_value (digit_char d) = d"
  by (simp add: digit_value_def digit_char_def)

lemma digits10_digits: "list_all is_digit (digits10 n)"
proof (induction n rule: digits10.induct)
  case (1 n)
  then show ?case
    by (subst digits10.simps) (simp add: is_digit_digit_char)
qed

lemma decimal_snoc: "decimal (ds @ [c]) = 10 * decimal ds + digit_value c"
  by (simp add: decimal_def)

lemma decimal_digits10: "decimal (digits10 n) = n"
proof (induction n rule: digits10.induct)
  case (1 n)
  show ?case
  proof (cases "n < 10")
    case True
    then show ?thesis
      by (subst digits10.simps) (simp add: decimal_def digit_value_digit_char)
  next
    case False
    with 1 have "decimal (digits10 (n div 10)) = n div 10" by simp
    with False show ?thesis
      by (subst digits10.simps) (simp add: decimal_snoc digit_value_digit_char)
  qed
qed

lemma digits10_nonempty: "digits10 n \<noteq> []"
  by (subst digits10.simps) simp

lemma digit_not_sign: "is_digit c \<Longrightarrow> c \<noteq> CHR ''-'' \<and> c \<noteq> CHR ''+''"
  by (auto simp: is_digit_def Let_def)

lemma Atoi_digits:
  assumes "ds \<noteq> []" and "list_all is_digit ds" and "int (decimal ds) < 2 ^ 63"
  shows "Atoi ds = Some (int (decimal ds))"
proof -
  from assms(1) obtain c cs where ds: "ds = c # cs" by (cases ds) auto
  with assms(2) have "c \<noteq> CHR ''-''" and "c \<noteq> CHR ''+''"
    using digit_not_sign [of c] by auto
  with assms ds show ?thesis
    by (simp add: Atoi_def Let_def)
qed

lemma Atoi_Sprintf_d:
  assumes "0 \<le> n" and "n < 2 ^ 63"
  shows "Atoi (Sprintf_d n) = Some n"
  using assms Atoi_digits [of "digits10 (nat n)"]
  by (simp add: Sprintf_d_def digits10_nonempty digits10_digits decimal_digits10)

lemma bytes_weighted:
  "(statusCode \<noteq> 200 \<longrightarrow> 30 \<le> fst (realisticBytesSent_weighted statusCode g) \<and>
       fst (realisticBytesSent_weighted statusCode g) \<le> 120) \<and>
   (statusCode = 200 \<longrightarrow> 800 \<le> fst (realisticBytesSent_weighted statusCode g) \<and>
       fst (realisticBytesSent_weighted statusCode g) \<le> 3100)"
  using Number_range [of 30 120 g] Number_range [of 800 3100 g]
  by (simp add: realisticBytesSent_weighted_def)

lemma bytes_fixed:
  "\<exists>b g'. realisticBytesSent_fixed statusCode g = Inr (b, g') \<and>
     (statusCode \<ge> 400 \<longrightarrow> 30 \<le> b \<and> b \<le> 119) \<and>
     (statusCode < 400 \<longrightarrow> 800 \<le> b \<and> b \<le> 3099)"
proof (cases "statusCode \<ge> 400")
  case True
  from Intn_range [of "120 - 30" g] obtain k g' where
    "Intn (120 - 30) g = Inr (k, g')" and "0 \<le> k" and "k < 120 - 30" by auto
  with True show ?thesis
    by (simp add: realisticBytesSent_fixed_def and_then_def)
next
  case False
  from Intn_range [of "3100 - 800" g] obtain k g' where
    "Intn (3100 - 800) g = Inr (k, g')" and "0 \<le> k" and "k < 3100 - 800" by auto
  with False show ?thesis
    by (simp add: realisticBytesSent_fixed_def and_then_def)
qed

lemma bytes_fixed_301:
  "map_sum id fst (realisticBytesSent_fixed 301 example_source) = Inr 803"
  by (simp add: realisticBytesSent_fixed_def and_then_def Intn_def draw_with_def next_draw_def
      example_source_def)

subsection \<open>The check of the method weights\<close>

lemma weightedHTTPMethod_panics:
  "100 < wrap64 (a + b + c + d + e) \<Longrightarrow> weightedHTTPMethod fk a b c d e g = Inl method_panic"
  by (simp add: weightedHTTPMethod_def add64_chain Let_def)

lemma tick_weighted_panics:
  assumes "100 < wrap64 (PercentageGet cfg + PercentagePost cfg + PercentagePut cfg +
             PercentagePatch cfg + PercentageDelete cfg)"
  shows "tick_weighted fk cfg timeLocal g = Inl method_panic"
  using assms
  by (simp add: tick_weighted_def weightedHTTPMethod_panics and_then_def case_prod_beta)

lemma main_weighted_startup:
  "ticker_of_rate (Rate cfg) = Inr d \<Longrightarrow> main_weighted fk (Some cfg) g [] = (None, [])"
  by (simp add: main_weighted_def case_prod_beta Let_def)

lemma main_weighted_no_ticker:
  "ticker_of_rate (Rate cfg) = Inl p \<Longrightarrow> main_weighted fk (Some cfg) g ticks = (Some p, [])"
  by (simp add: main_weighted_def case_prod_beta Let_def)

lemma main_weighted_first_tick:
  assumes "100 < wrap64 (PercentageGet cfg + PercentagePost cfg + PercentagePut cfg +
             PercentagePatch cfg + PercentageDelete cfg)"
    and "ticker_of_rate (Rate cfg) = Inr d"
  shows "main_weighted fk (Some cfg) g (t # ts) = (Some method_panic, [])"
  using assms
  by (simp add: main_weighted_def case_prod_beta Let_def tick_weighted_panics)

text \<open>
  C2, as the code has it. The total of the five method weights is checked in
  \<open>weightedHTTPMethod\<close>, which the loop calls for every event; \<open>main\<close> does not check
  it before the loop. For a configuration whose weights total more than 100 (in the
  64-bit addition of the source) no record is ever printed and the process has
  panicked once the first tick is delivered; when the ticker can be made, the process
  is still running before the first tick and the panic at the first tick is the one of
  \<open>weightedHTTPMethod\<close>.
\<close>

theorem method_weights_over_100:
  assumes "100 < wrap64 (PercentageGet cfg + PercentagePost cfg + PercentagePut cfg +
             PercentagePatch cfg + PercentageDelete cfg)"
  shows "snd (main_weighted fk (Some cfg) g ticks) = [] \<and>
         (ticks \<noteq> [] \<longrightarrow> fst (main_weighted fk (Some cfg) g ticks) \<noteq> None) \<and>
         (\<forall>d. ticker_of_rate (Rate cfg) = Inr d \<longrightarrow>
            main_weighted fk (Some cfg) g [] = (None, []) \<and>
            (\<forall>t ts. main_weighted fk (Some cfg) g (t # ts) = (Some method_panic, [])))"
proof (cases "ticker_of_rate (Rate cfg)")
  case (Inl p)
  then show ?thesis by (simp add: main_weighted_no_ticker)
next
  case (Inr d)
  show ?thesis
  proof (cases ticks)
    case Nil
    with Inr assms show ?thesis
      by (simp add: main_weighted_startup main_weighted_first_tick)
  next
    case (Cons t ts)
    with Inr assms show ?thesis
      by (simp add: main_weighted_startup main_weighted_first_tick)
  qed
qed

lemma example_weights_startup:
  "main_weighted example_provider (Some example_weights) example_source [] = (None, [])"
  by (simp add: main_weighted_def example_weights_def checkMinMax_def ticker_of_rate_def
      quo_def time_Second_def NewTicker_def)

lemma example_weights_first_tick:
  "main_weighted example_provider (Some example_weights) example_source [5] = (Some method_panic, [])"
  by (simp add: main_weighted_def example_weights_def checkMinMax_def ticker_of_rate_def
      quo_def time_Second_def NewTicker_def tick_weighted_def and_then_def case_prod_beta
      weightedHTTPMethod_def add64_def wrap64_def)

text \<open>
  With \<open>GET = 70\<close> and \<open>POST = 50\<close> the start-up completes and the process runs;
  it panics at the first tick.
\<close>

theorem method_weights_startup_counterexample:
  "(100::int) < 70 + 50 + 0 + 0 + 0 \<and>
   PercentageGet example_weights = 70 \<and> PercentagePost example_weights = 50 \<and>
   PercentagePut example_weights = 0 \<and> PercentagePatch example_weights = 0 \<and>
   PercentageDelete example_weights = 0 \<and>
   main_weighted example_provider (Some example_weights) example_source [] = (None, []) \<and>
   main_weighted example_provider (Some example_weights) example_source [5] = (Some method_panic, [])"
  using example_weights_startup example_weights_first_tick
  by (simp add: example_weights_def)

theorem method_weights_over_100_witness:
  "(100::int) < wrap64 (70 + 50 + 0 + 0 + 0) \<and>
   ticker_of_rate 1 = Inr 1000000000 \<and>
   snd (main_weighted example_provider (Some example_weights) example_source [5, 6]) = [] \<and>
   fst (main_weighted example_provider (Some example_weights) example_source [5, 6]) = Some method_panic \<and>
   main_weighted example_provider (Some example_weights) example_source [] = (None, [])"
proof -
  have w: "100 < wrap64 (PercentageGet example_weights + PercentagePost example_weights +
             PercentagePut example_weights + PercentagePatch example_weights +
             PercentageDelete example_weights)"
    by (simp add: example_weights_def wrap64_def)
  have r: "ticker_of_rate (Rate example_weights) = Inr 1000000000"
    by (simp add: example_weights_def ticker_of_rate_def quo_def time_Second_def NewTicker_def)
  show ?thesis
    using method_weights_over_100 [OF w, of example_provider example_source "[5, 6]"] r w
    by (simp add: example_weights_def)
qed

subsection \<open>The weighted choices\<close>

lemma roll_range: "0 \<le> fst (Number 0 100 g) \<and> fst (Number 0 100 g) \<le> 100"
  using Number_range [of 0 100 g] by simp

text \<open>
  C3, as the code has it. With the roll drawn from 0 to 100, \<open>weightedStatusCode\<close> and
  \<open>weightedIPVersion\<close> return the first label whose threshold is at least the roll, and
  fall back to the library's status code and to an IPv6 address when the threshold is not
  reached. \<open>weightedHTTPMethod\<close> does the same over the cumulative sums of its five
  weights (64-bit sums), falling back to the library's method, when the total is at most
  100; when the total exceeds 100 it panics and returns no label.
\<close>

theorem weighted_choice_first_label:
  "weightedStatusCode fk percentageOk g =
     (let (roll, g1) = Number 0 100 g
      in case spec_first_label roll [(200, percentageOk)] of
           Some label \<Rightarrow> (label, g1)
         | None \<Rightarrow> draw_with (gofakeit_HTTPStatusCodeSimple fk) g1) \<and>
   weightedIPVersion fk percentageIPv4 g =
     (let (roll, g1) = Number 0 100 g
      in case spec_first_label roll [(gofakeit_IPv4Address fk, percentageIPv4)] of
           Some address \<Rightarrow> draw_with address g1
         | None \<Rightarrow> draw_with (gofakeit_IPv6Address fk) g1) \<and>
   weightedHTTPMethod fk a b c d e g =
     (if 100 < add64 (add64 (add64 (add64 a b) c) d) e then Inl method_panic
      else Inr
        (let (roll, g1) = Number 0 100 g
         in case spec_first_label roll
                 [(''GET'', a), (''POST'', add64 a b), (''PUT'', add64 (add64 a b) c),
                  (''PATCH'', add64 (add64 (add64 a b) c) d),
                  (''DELETE'', add64 (add64 (add64 (add64 a b) c) d) e)] of
              Some label \<Rightarrow> (label, g1)
            | None \<Rightarrow> draw_with (gofakeit_HTTPMethod fk) g1)) \<and>
   0 \<le> fst (Number 0 100 g) \<and> fst (Number 0 100 g) \<le> 100"
proof -
  have "weightedStatusCode fk percentageOk g =
     (let (roll, g1) = Number 0 100 g
      in case spec_first_label roll [(200, percentageOk)] of
           Some label \<Rightarrow> (label, g1)
         | None \<Rightarrow> draw_with (gofakeit_HTTPStatusCodeSimple fk) g1)"
    by (simp add: weightedStatusCode_def spec_first_label_def case_prod_beta)
  moreover have "weightedIPVersion fk percentageIPv4 g =
     (let (roll, g1) = Number 0 100 g
      in case spec_first_label roll [(gofakeit_IPv4Address fk, percentageIPv4)] of
           Some address \<Rightarrow> draw_with address g1
         | None \<Rightarrow> draw_with (gofakeit_IPv6Address fk) g1)"
    by (simp add: weightedIPVersion_def spec_first_label_def case_prod_beta)
  moreover have "weightedHTTPMethod fk a b c d e g =
     (if 100 < add64 (add64 (add64 (add64 a b) c) d) e then Inl method_panic
      else Inr
        (let (roll, g1) = Number 0 100 g
         in case spec_first_label roll
                 [(''GET'', a), (''POST'', add64 a b), (''PUT'', add64 (add64 a b) c),
                  (''PATCH'', add64 (add64 (add64 a b) c) d),
                  (''DELETE'', add64 (add64 (add64 (add64 a b) c) d) e)] of
              Some label \<Rightarrow> (label, g1)
            | None \<Rightarrow> draw_with (gofakeit_HTTPMethod fk) g1))"
    by (simp add: weightedHTTPMethod_def spec_first_label_def case_prod_beta Let_def)
  ultimately show ?thesis using roll_range [of g] by blast
qed

lemma next_is_roll: "r \<le> 100 \<Longrightarrow> Number 0 100 (next_is r g) = (int r, (next_is r g)\<lparr>used := Suc (used g)\<rparr>)"
  by (simp add: Number_def draw_with_def next_draw_def next_is_def randIntRange_def)

text \<open>
  With the weights 70 and 50 and the roll 10 the first label reached is \<open>GET\<close>, and
  \<open>weightedHTTPMethod\<close> panics.
\<close>

theorem weighted_choice_panic_counterexample:
  "spec_first_label 10
     [(''GET'', 70), (''POST'', add64 70 50), (''PUT'', add64 (add64 70 50) 0),
      (''PATCH'', add64 (add64 (add64 70 50) 0) 0),
      (''DELETE'', add64 (add64 (add64 (add64 70 50) 0) 0) 0)] = Some ''GET'' \<and>
   fst (Number 0 100 (next_is 10 example_source)) = 10 \<and>
   weightedHTTPMethod example_provider 70 50 0 0 0 (next_is 10 example_source) = Inl method_panic"
  by (simp add: spec_first_label_def next_is_roll weightedHTTPMethod_def add64_def wrap64_def)

theorem weighted_choice_first_label_witness:
  "weightedHTTPMethod example_provider 60 30 0 0 0 (next_is 81 example_source) =
     Inr (''POST'', (next_is 81 example_source)\<lparr>used := Suc (used example_source)\<rparr>) \<and>
   fst (weightedStatusCode example_provider 80 (next_is 81 example_source)) = 404 \<and>
   fst (weightedIPVersion example_provider 50 (next_is 81 example_source)) = ''2001:db8::1''"
proof -
  have pairs:
    "spec_first_label 81 [(200::int, 80)] = None"
    "spec_first_label 81 [(gofakeit_IPv4Address example_provider, 50)] = None"
    "spec_first_label 81
       [(''GET'', 60), (''POST'', add64 60 30), (''PUT'', add64 (add64 60 30) 0),
        (''PATCH'', add64 (add64 (add64 60 30) 0) 0),
        (''DELETE'', add64 (add64 (add64 (add64 60 30) 0) 0) 0)] = Some ''POST''"
    by (simp_all add: spec_first_label_def add64_def wrap64_def)
  have total: "\<not> 100 < add64 (add64 (add64 (add64 60 30) 0) 0) 0"
    by (simp add: add64_def wrap64_def)
  have fallback:
    "fst (draw_with (gofakeit_HTTPStatusCodeSimple example_provider) g) = 404"
    "fst (draw_with (gofakeit_IPv6Address example_provider) g) = ''2001:db8::1''" for g
    by (simp_all add: draw_with_def next_draw_def example_provider_def)
  show ?thesis
    using weighted_choice_first_label
      [of example_provider 80 "next_is 81 example_source" 50 60 30 0 0 0]
    by (simp add: next_is_roll pairs total fallback)
qed

subsection \<open>The share of status 200\<close>

lemma weightedStatusCode_roll:
  assumes "r \<le> 100"
  shows "fst (weightedStatusCode fk W (next_is r g)) =
           (if int r \<le> W then 200 else gofakeit_HTTPStatusCodeSimple fk (draws g (Suc (used g))))"
  using assms
  by (simp add: weightedStatusCode_def next_is_roll draw_with_def next_draw_def)
    (simp add: next_is_def)

lemma count_upto: "length (filter (\<lambda>r. r \<le> k) [0..<n]) = min (Suc k) n"
  by (induction n) auto

lemma length_filter_mono:
  "(\<And>x. x \<in> set xs \<Longrightarrow> P x \<Longrightarrow> Q x) \<Longrightarrow> length (filter P xs) \<le> length (filter Q xs)"
  by (induction xs) auto

lemma rolls_200_at_least:
  assumes "0 \<le> W" and "W \<le> 100"
  shows "nat W + 1 \<le> length (filter (\<lambda>r. fst (weightedStatusCode fk W (next_is r g)) = 200) [0..<101])"
proof -
  have "length (filter (\<lambda>r. r \<le> nat W) [0..<101])
          \<le> length (filter (\<lambda>r. fst (weightedStatusCode fk W (next_is r g)) = 200) [0..<101])"
  proof (rule length_filter_mono)
    fix r assume "r \<in> set [0..<101]" and "r \<le> nat W"
    then have "r \<le> 100" and "int r \<le> W"
      using assms by auto
    then show "fst (weightedStatusCode fk W (next_is r g)) = 200"
      by (simp add: weightedStatusCode_roll)
  qed
  then show ?thesis using assms by (simp add: count_upto)
qed

lemma rolls_200_exactly:
  assumes "0 \<le> W" and "W \<le> 100" and "\<And>n. gofakeit_HTTPStatusCodeSimple fk n \<noteq> 200"
  shows "length (filter (\<lambda>r. fst (weightedStatusCode fk W (next_is r g)) = 200) [0..<101]) = nat W + 1"
proof -
  have "filter (\<lambda>r. fst (weightedStatusCode fk W (next_is r g)) = 200) [0..<101]
          = filter (\<lambda>r. r \<le> nat W) [0..<101]"
  proof (rule filter_cong [OF refl])
    fix r assume "r \<in> set [0..<101]"
    then have "r \<le> 100" by simp
    moreover have "(int r \<le> W) = (r \<le> nat W)"
      using assms by auto
    ultimately show "(fst (weightedStatusCode fk W (next_is r g)) = 200) = (r \<le> nat W)"
      using assms(3) by (simp add: weightedStatusCode_roll)
  qed
  then show ?thesis using assms by (simp add: count_upto)
qed

text \<open>
  C6, evaluated on the code. The roll takes the 101 values from 0 to 100 and every roll
  up to \<open>W\<close> gives 200: at least \<open>W + 1\<close> of the 101 rolls, and exactly \<open>W + 1\<close> when
  the library's fallback never produces 200. For every \<open>W\<close> below 100 that share is
  more than \<open>W / 100\<close>.
\<close>

theorem weightedStatusCode_share:
  assumes "0 \<le> W" and "W \<le> 100"
  shows "nat W + 1 \<le> length (filter (\<lambda>r. fst (weightedStatusCode fk W (next_is r g)) = 200) [0..<101]) \<and>
         ((\<forall>n. gofakeit_HTTPStatusCodeSimple fk n \<noteq> 200) \<longrightarrow>
            length (filter (\<lambda>r. fst (weightedStatusCode fk W (next_is r g)) = 200) [0..<101]) = nat W + 1) \<and>
         (W < 100 \<longrightarrow>
            101 * W < 100 * int (length (filter (\<lambda>r. fst (weightedStatusCode fk W (next_is r g)) = 200) [0..<101])))"
proof -
  let ?count = "length (filter (\<lambda>r. fst (weightedStatusCode fk W (next_is r g)) = 200) [0..<101])"
  have least: "nat W + 1 \<le> ?count"
    using assms by (rule rolls_200_at_least)
  moreover have "(\<forall>n. gofakeit_HTTPStatusCodeSimple fk n \<noteq> 200) \<longrightarrow> ?count = nat W + 1"
  proof
    assume "\<forall>n. gofakeit_HTTPStatusCodeSimple fk n \<noteq> 200"
    then have "\<And>n. gofakeit_HTTPStatusCodeSimple fk n \<noteq> 200" by blast
    with assms show "?count = nat W + 1" by (rule rolls_200_exactly)
  qed
  moreover have "W < 100 \<longrightarrow> 101 * W < 100 * int ?count"
  proof
    assume "W < 100"
    from least assms have "W + 1 \<le> int ?count" by linarith
    with \<open>W < 100\<close> show "101 * W < 100 * int ?count" by linarith
  qed
  ultimately show ?thesis by blast
qed

theorem weightedStatusCode_share_witness:
  "(0::int) \<le> 0 \<and> (0::int) \<le> 100 \<and>
   length (filter (\<lambda>r. fst (weightedStatusCode example_provider 0 (next_is r example_source)) = 200)
     [0..<101]) = 1 \<and>
   fst (weightedStatusCode example_provider 0 (next_is 0 example_source)) = 200"
proof -
  have fb: "\<forall>n. gofakeit_HTTPStatusCodeSimple example_provider n \<noteq> 200"
    by (simp add: example_provider_def)
  show ?thesis
    using weightedStatusCode_share [of 0 example_provider example_source] fb
    by (simp add: weightedStatusCode_roll)
qed

subsection \<open>The records of a run\<close>

lemma tick_weighted_fields:
  assumes "tick_weighted fk cfg timeLocal g = Inr (entry, g')"
  shows "Protocol (HTTP entry) = ''HTTP/1.1'' \<and> ServerProtocol (HTTP entry) = ''HTTP/1.1'' \<and>
         ContentType (HTTP entry) = ''application/json'' \<and> TraceSessionID (HTTP entry) = [] \<and>
         RemoteAddr (Nginx entry) = [] \<and>
         (\<exists>g4. BytesSent (HTTP entry) =
            Sprintf_d (fst (realisticBytesSent_weighted (StatusCode (HTTP entry)) g4)))"
proof (cases "weightedHTTPMethod fk (PercentageGet cfg) (PercentagePost cfg) (PercentagePut cfg)
              (PercentagePatch cfg) (PercentageDelete cfg)
              (snd (weightedIPVersion fk (IPv4Percent cfg) g))")
  case (Inl p)
  with assms show ?thesis
    by (simp add: tick_weighted_def and_then_def case_prod_beta)
next
  case (Inr m)
  with assms have "entry = fst (projr (tick_weighted fk cfg timeLocal g))"
    by simp
  with Inr show ?thesis
    by (auto simp: tick_weighted_def and_then_def case_prod_beta Let_def)
qed

lemma loop_weighted_entries:
  assumes "\<And>timeLocal g entry g'. tick_weighted fk cfg timeLocal g = Inr (entry, g') \<Longrightarrow> P entry"
    and "\<forall>entry \<in> set out0. P entry"
  shows "\<forall>entry \<in> set (snd (loop_weighted fk cfg g ticks out0)). P entry"
  using assms(2)
proof (induction ticks arbitrary: g out0)
  case Nil
  then show ?case by simp
next
  case (Cons t ticks)
  show ?case
  proof (cases "tick_weighted fk cfg t g")
    case (Inl p)
    with Cons.prems show ?thesis by simp
  next
    case (Inr r)
    obtain entry g' where r: "r = (entry, g')" by (cases r)
    with Inr have "P entry" using assms(1) by blast
    with Cons.prems have "\<forall>x \<in> set (out0 @ [entry]). P x" by simp
    from Cons.IH [OF this] Inr r show ?thesis by simp
  qed
qed

lemma main_weighted_entries:
  assumes "\<And>cfg timeLocal g entry g'.
             tick_weighted fk cfg timeLocal g = Inr (entry, g') \<Longrightarrow> P entry"
  shows "\<forall>entry \<in> set (snd (main_weighted fk parsed g ticks)). P entry"
proof (cases parsed)
  case None
  then show ?thesis by (simp add: main_weighted_def)
next
  case (Some cfg0)
  then show ?thesis
    using loop_weighted_entries [where P = P and ?out0.0 = "[]", OF assms]
    by (simp add: main_weighted_def case_prod_beta Let_def split: sum.splits)
qed

lemma pick_mem: "pick xs g = Inr (x, g') \<Longrightarrow> x \<in> set xs"
  by (auto simp: pick_def and_then_def split: sum.splits if_splits)

lemma and_then_Inr_iff:
  "(and_then m f = Inr y) = (\<exists>x. m = Inr x \<and> f x = Inr y)"
  by (cases m) (simp_all add: and_then_def)

lemma tick_fixed_fields:
  assumes "tick_fixed fk ls timeLocal g = Inr (entry, g')"
  shows "Protocol (HTTP entry) = ''HTTP/1.1'' \<and> ServerProtocol (HTTP entry) = ''HTTP/1.1'' \<and>
         ContentType (HTTP entry) = ''application/json'' \<and> TraceSessionID (HTTP entry) = [] \<and>
         RemoteAddr (Nginx entry) = XForwardFor (Nginx entry) \<and>
         XForwardFor (Nginx entry) \<in> set (ipList ls) \<and>
         Method (HTTP entry) \<in> set (methodList ls) \<and>
         URI (HTTP entry) \<in> set (pathList ls) \<and>
         StatusCode (HTTP entry) \<in> set (statusCodeList ls) \<and>
         Host (HTTP entry) \<in> set (hostList ls) \<and>
         (\<exists>g5 b g6. realisticBytesSent_fixed (StatusCode (HTTP entry)) g5 = Inr (b, g6) \<and>
            BytesSent (HTTP entry) = Sprintf_d b)"
  using assms
  by (auto simp: tick_fixed_def and_then_Inr_iff case_prod_beta Let_def dest: pick_mem) blast

subsection \<open>The fixed allow-list variant\<close>

lemma loop_fixed_entries:
  assumes "\<And>timeLocal g entry g'. tick_fixed fk ls timeLocal g = Inr (entry, g') \<Longrightarrow> P entry"
    and "\<forall>entry \<in> set out0. P entry"
  shows "\<forall>entry \<in> set (snd (loop_fixed fk ls g ticks out0)). P entry"
  using assms(2)
proof (induction ticks arbitrary: g out0)
  case Nil
  then show ?case by simp
next
  case (Cons t ticks)
  show ?case
  proof (cases "tick_fixed fk ls t g")
    case (Inl p)
    with Cons.prems show ?thesis by simp
  next
    case (Inr r)
    obtain entry g' where r: "r = (entry, g')" by (cases r)
    with Inr have "P entry" using assms(1) by blast
    with Cons.prems have "\<forall>x \<in> set (out0 @ [entry]). P x" by simp
    from Cons.IH [OF this] Inr r show ?thesis by simp
  qed
qed

lemma main_fixed_cases:
  "main_fixed fk (Some cfg) g ticks =
     (case ticker_of_rate (RateF cfg) of
        Inl p \<Rightarrow> (Some p, [])
      | Inr ticker \<Rightarrow>
          if ipList (env_lists cfg) = [] then
            (Some (Message
               ''IP_ADDRESSES environment variable must be set with at least one IP address''), [])
          else if methodList (env_lists cfg) = [] then
            (Some (Message
               ''HTTP_METHODS environment variable must be set with at least one HTTP method''), [])
          else if pathList (env_lists cfg) = [] then
            (Some (Message ''PATHS environment variable must be set with at least one path''), [])
          else if statusCodeList (env_lists cfg) = [] then
            (Some (Message
               ''STATUS_CODES environment variable must be set with at least one status code''), [])
          else if hostList (env_lists cfg) = [] then
            (Some (Message ''HOSTS environment variable must be set with at least one host''), [])
          else loop_fixed fk (env_lists cfg) g ticks [])"
  by (simp add: main_fixed_def env_lists_def Let_def split: sum.splits)

lemma main_fixed_entries:
  assumes "\<And>timeLocal g entry g'.
             tick_fixed fk (env_lists cfg) timeLocal g = Inr (entry, g') \<Longrightarrow> P entry"
  shows "\<forall>entry \<in> set (snd (main_fixed fk (Some cfg) g ticks)). P entry"
  using loop_fixed_entries [where P = P and ?out0.0 = "[]" and ls = "env_lists cfg", OF assms]
  by (simp add: main_fixed_cases split: sum.splits)

lemma split_from_nonempty: "split_from sep cur s \<noteq> []"
  by (induction s arbitrary: cur) auto

lemma parseEnvList_empty: "(parseEnvList envVar = []) = (envVar = [])"
  by (simp add: parseEnvList_def Split_def split_from_nonempty)

lemma ticker_of_rate_cases:
  "ticker_of_rate rate =
     (if rate = 0 then Inl DivideByZero
      else if rate < 0 \<or> 1000000000 < rate then Inl NonPositiveInterval
      else Inr (1000000000 div rate))"
proof -
  consider "rate = 0" | "rate < 0" | "1000000000 < rate" | "1 \<le> rate" "rate \<le> 1000000000"
    by linarith
  then show ?thesis
  proof cases
    case 1
    then show ?thesis
      by (simp add: ticker_of_rate_def quo_def)
  next
    case 2
    then have "0 \<le> 1000000000 div (- rate)"
      by (simp add: pos_imp_zdiv_nonneg_iff)
    with 2 show ?thesis
      by (simp add: ticker_of_rate_def quo_def time_Second_def NewTicker_def)
  next
    case 3
    then have "1000000000 div rate = 0"
      by (simp add: div_pos_pos_trivial)
    with 3 show ?thesis
      by (simp add: ticker_of_rate_def quo_def time_Second_def NewTicker_def)
  next
    case 4
    then have "0 < 1000000000 div rate"
      by (simp add: pos_imp_zdiv_pos_iff)
    with 4 show ?thesis
      by (simp add: ticker_of_rate_def quo_def time_Second_def NewTicker_def)
  qed
qed

text \<open>
  C7, as the code has it. In the fixed allow-list variant, when one of the five lists
  parses to an empty list the process panics in \<open>main\<close> before the loop over the ticker:
  the result is a panic and no record, whatever ticks follow and also when none does.
  The ticker is made before the lists are checked. When the rate, as an integer, lies
  from 1 to \<open>10\<^sup>9\<close> the ticker is made and the panic carries the message of the first
  empty list, in the order \<open>IP_ADDRESSES\<close>, \<open>HTTP_METHODS\<close>, \<open>PATHS\<close>, \<open>STATUS_CODES\<close>,
  \<open>HOSTS\<close>. For the rate 0 the panic is the division by zero, and for a negative rate
  or one above \<open>10\<^sup>9\<close> it is the ticker's panic on an interval that is not positive; no
  list is named then.
\<close>

theorem missing_list_is_fatal:
  assumes "parseEnvList (IPAddresses cfg) = [] \<or> parseEnvList (HTTPMethods cfg) = [] \<or>
           parseEnvList (Paths cfg) = [] \<or> parseEnvIntList (StatusCodes cfg) = [] \<or>
           parseEnvList (Hosts cfg) = []"
  shows "main_fixed fk (Some cfg) g ticks = main_fixed fk (Some cfg) g [] \<and>
         (\<exists>p. main_fixed fk (Some cfg) g ticks = (Some p, [])) \<and>
         (RateF cfg = 0 \<longrightarrow> main_fixed fk (Some cfg) g ticks = (Some DivideByZero, [])) \<and>
         (RateF cfg < 0 \<or> 1000000000 < RateF cfg \<longrightarrow>
            main_fixed fk (Some cfg) g ticks = (Some NonPositiveInterval, [])) \<and>
         (1 \<le> RateF cfg \<and> RateF cfg \<le> 1000000000 \<longrightarrow>
            (parseEnvList (IPAddresses cfg) = [] \<longrightarrow>
               main_fixed fk (Some cfg) g ticks =
                 (Some (Message
                    ''IP_ADDRESSES environment variable must be set with at least one IP address''),
                  [])) \<and>
            (parseEnvList (IPAddresses cfg) \<noteq> [] \<and> parseEnvList (HTTPMethods cfg) = [] \<longrightarrow>
               main_fixed fk (Some cfg) g ticks =
                 (Some (Message
                    ''HTTP_METHODS environment variable must be set with at least one HTTP method''),
                  [])) \<and>
            (parseEnvList (IPAddresses cfg) \<noteq> [] \<and> parseEnvList (HTTPMethods cfg) \<noteq> [] \<and>
             parseEnvList (Paths cfg) = [] \<longrightarrow>
               main_fixed fk (Some cfg) g ticks =
                 (Some (Message ''PATHS environment variable must be set with at least one path''),
                  [])) \<and>
            (parseEnvList (IPAddresses cfg) \<noteq> [] \<and> parseEnvList (HTTPMethods cfg) \<noteq> [] \<and>
             parseEnvList (Paths cfg) \<noteq> [] \<and> parseEnvIntList (StatusCodes cfg) = [] \<longrightarrow>
               main_fixed fk (Some cfg) g ticks =
                 (Some (Message
                    ''STATUS_CODES environment variable must be set with at least one status code''),
                  [])) \<and>
            (parseEnvList (IPAddresses cfg) \<noteq> [] \<and> parseEnvList (HTTPMethods cfg) \<noteq> [] \<and>
             parseEnvList (Paths cfg) \<noteq> [] \<and> parseEnvIntList (StatusCodes cfg) \<noteq> [] \<and>
             parseEnvList (Hosts cfg) = [] \<longrightarrow>
               main_fixed fk (Some cfg) g ticks =
                 (Some (Message ''HOSTS environment variable must be set with at least one host''),
                  [])))"
proof -
  have lists:
    "ipList (env_lists cfg) = parseEnvList (IPAddresses cfg)"
    "methodList (env_lists cfg) = parseEnvList (HTTPMethods cfg)"
    "pathList (env_lists cfg) = parseEnvList (Paths cfg)"
    "statusCodeList (env_lists cfg) = parseEnvIntList (StatusCodes cfg)"
    "hostList (env_lists cfg) = parseEnvList (Hosts cfg)"
    by (simp_all add: env_lists_def)
  have run: "main_fixed fk (Some cfg) g ts =
     (if RateF cfg = 0 then (Some DivideByZero, [])
      else if RateF cfg < 0 \<or> 1000000000 < RateF cfg then (Some NonPositiveInterval, [])
      else if parseEnvList (IPAddresses cfg) = [] then
        (Some (Message
           ''IP_ADDRESSES environment variable must be set with at least one IP address''), [])
      else if parseEnvList (HTTPMethods cfg) = [] then
        (Some (Message
           ''HTTP_METHODS environment variable must be set with at least one HTTP method''), [])
      else if parseEnvList (Paths cfg) = [] then
        (Some (Message ''PATHS environment variable must be set with at least one path''), [])
      else if parseEnvIntList (StatusCodes cfg) = [] then
        (Some (Message
           ''STATUS_CODES environment variable must be set with at least one status code''), [])
      else (Some (Message ''HOSTS environment variable must be set with at least one host''), []))"
    for ts
    using assms
    by (simp only: main_fixed_cases ticker_of_rate_cases lists) (auto split: if_splits)
  show ?thesis
    unfolding run by auto
qed

text \<open>
  With the rate 0 and no host the process panics on the division by zero, and the
  panic names no list.
\<close>

theorem missing_list_rate_counterexample:
  "parseEnvList (Hosts (example_lists\<lparr>RateF := 0, Hosts := []\<rparr>)) = [] \<and>
   main_fixed example_provider (Some (example_lists\<lparr>RateF := 0, Hosts := []\<rparr>)) example_source
     [5, 6] = (Some DivideByZero, []) \<and>
   DivideByZero \<noteq> Message ''HOSTS environment variable must be set with at least one host''"
  by (simp add: parseEnvList_def main_fixed_def ticker_of_rate_def quo_def)

lemmas trim_eval = TrimSpace_def TrimLeft.simps TrimRight.simps leading_space_def
  trailing_space_def white_space_def Split_def suffix_Cons

lemmas atoi_eval = Atoi_def is_digit_def decimal_def digit_value_def Let_def

lemma example_lists_parsed:
  "env_lists example_lists =
     \<lparr>ipList = [''10.0.0.1''], methodList = [''GET''], pathList = [''/a'', ''/b''],
      statusCodeList = [200, 301, 404], hostList = [''h.example'']\<rparr>"
  by (simp add: env_lists_def example_lists_def parseEnvList_def parseEnvIntList_def trim_eval
      atoi_eval)

lemma example_ticker: "ticker_of_rate 1 = Inr 1000000000"
  by (simp add: ticker_of_rate_def quo_def time_Second_def NewTicker_def)

lemma digit_chars: "map digit_char [0, 1, 2, 3, 4, 5, 6, 7, 8, 9] = ''0123456789''"
  by code_simp

lemma digit_char_simps:
  "digit_char 0 = CHR ''0''" "digit_char (Suc 0) = CHR ''1''" "digit_char 2 = CHR ''2''"
  "digit_char 3 = CHR ''3''" "digit_char 4 = CHR ''4''" "digit_char 5 = CHR ''5''"
  "digit_char 6 = CHR ''6''" "digit_char 7 = CHR ''7''" "digit_char 8 = CHR ''8''"
  "digit_char 9 = CHR ''9''"
  using digit_chars by simp_all

lemma example_fixed_loop:
  "map (\<lambda>e. (Method (HTTP e), XForwardFor (Nginx e), RemoteAddr (Nginx e), StatusCode (HTTP e),
            URI (HTTP e), BytesSent (HTTP e), Protocol (HTTP e)))
     (snd (loop_fixed example_provider (env_lists example_lists) example_source [5, 6] [])) =
   [(''GET'', ''10.0.0.1'', ''10.0.0.1'', 200, ''/b'', ''838'', ''HTTP/1.1''),
    (''GET'', ''10.0.0.1'', ''10.0.0.1'', 200, ''/a'', ''901'', ''HTTP/1.1'')]"
  by (simp add: example_lists_parsed tick_fixed_def and_then_def pick_def Intn_def draw_with_def
      next_draw_def example_source_def example_provider_def realisticBytesSent_fixed_def
      Sprintf_d_def digits10.simps digit_char_simps Let_def)

lemma example_fixed_main:
  "main_fixed example_provider (Some example_lists) example_source ticks =
     loop_fixed example_provider (env_lists example_lists) example_source ticks []"
proof -
  have "RateF example_lists = 1" by (simp add: example_lists_def)
  then show ?thesis
    by (simp add: main_fixed_cases example_ticker) (simp add: example_lists_parsed)
qed

lemma example_fixed_run:
  "map (\<lambda>e. (Method (HTTP e), XForwardFor (Nginx e), RemoteAddr (Nginx e), StatusCode (HTTP e),
            URI (HTTP e), BytesSent (HTTP e), Protocol (HTTP e)))
     (snd (main_fixed example_provider (Some example_lists) example_source [5, 6])) =
   [(''GET'', ''10.0.0.1'', ''10.0.0.1'', 200, ''/b'', ''838'', ''HTTP/1.1''),
    (''GET'', ''10.0.0.1'', ''10.0.0.1'', 200, ''/a'', ''901'', ''HTTP/1.1'')]"
  by (simp only: example_fixed_main example_fixed_loop)

lemma example_fixed_length:
  "length (snd (main_fixed example_provider (Some example_lists) example_source [5, 6])) = 2"
  using arg_cong [OF example_fixed_run, of length] by simp

theorem missing_list_is_fatal_witness:
  "parseEnvList (IPAddresses (example_lists\<lparr>IPAddresses := [], Hosts := []\<rparr>)) = [] \<and>
   (1::int) \<le> RateF (example_lists\<lparr>IPAddresses := [], Hosts := []\<rparr>) \<and>
   RateF (example_lists\<lparr>IPAddresses := [], Hosts := []\<rparr>) \<le> 1000000000 \<and>
   main_fixed example_provider (Some (example_lists\<lparr>IPAddresses := [], Hosts := []\<rparr>))
     example_source [5, 6] =
     (Some (Message ''IP_ADDRESSES environment variable must be set with at least one IP address''),
      []) \<and>
   main_fixed example_provider (Some (example_lists\<lparr>IPAddresses := [], Hosts := []\<rparr>))
     example_source [] =
     (Some (Message ''IP_ADDRESSES environment variable must be set with at least one IP address''),
      []) \<and>
   parseEnvList (IPAddresses (example_lists\<lparr>Hosts := []\<rparr>)) = [''10.0.0.1''] \<and>
   main_fixed example_provider (Some (example_lists\<lparr>Hosts := []\<rparr>)) example_source [5, 6] =
     (Some (Message ''HOSTS environment variable must be set with at least one host''), [])"
proof -
  let ?both = "example_lists\<lparr>IPAddresses := [], Hosts := []\<rparr>"
  let ?host = "example_lists\<lparr>Hosts := []\<rparr>"
  have rate: "1 \<le> RateF ?both \<and> RateF ?both \<le> 1000000000"
    "1 \<le> RateF ?host \<and> RateF ?host \<le> 1000000000"
    by (simp_all add: example_lists_def)
  have ip: "parseEnvList (IPAddresses ?both) = []"
    by (simp add: parseEnvList_def)
  then have h1: "parseEnvList (IPAddresses ?both) = [] \<or> parseEnvList (HTTPMethods ?both) = [] \<or>
      parseEnvList (Paths ?both) = [] \<or> parseEnvIntList (StatusCodes ?both) = [] \<or>
      parseEnvList (Hosts ?both) = []"
    by blast
  have parsed:
    "parseEnvList (IPAddresses ?host) = [''10.0.0.1'']"
    "parseEnvList (HTTPMethods ?host) = [''GET'']"
    "parseEnvList (Paths ?host) = [''/a'', ''/b'']"
    "parseEnvIntList (StatusCodes ?host) = [200, 301, 404]"
    using example_lists_parsed by (simp_all add: env_lists_def)
  have host: "parseEnvList (Hosts ?host) = []"
    by (simp add: parseEnvList_def)
  then have h2: "parseEnvList (IPAddresses ?host) = [] \<or> parseEnvList (HTTPMethods ?host) = [] \<or>
      parseEnvList (Paths ?host) = [] \<or> parseEnvIntList (StatusCodes ?host) = [] \<or>
      parseEnvList (Hosts ?host) = []"
    by blast
  have nonempty: "parseEnvList (IPAddresses ?host) \<noteq> []" "parseEnvList (HTTPMethods ?host) \<noteq> []"
    "parseEnvList (Paths ?host) \<noteq> []" "parseEnvIntList (StatusCodes ?host) \<noteq> []"
    unfolding parsed by simp_all
  have first: "main_fixed example_provider (Some ?both) example_source [5, 6] =
     (Some (Message ''IP_ADDRESSES environment variable must be set with at least one IP address''),
      [])"
    using missing_list_is_fatal [OF h1, of example_provider example_source "[5, 6]"] rate(1) ip
    by blast
  have second: "main_fixed example_provider (Some ?both) example_source [] =
     (Some (Message ''IP_ADDRESSES environment variable must be set with at least one IP address''),
      [])"
    using missing_list_is_fatal [OF h1, of example_provider example_source "[]"] rate(1) ip
    by blast
  have third: "main_fixed example_provider (Some ?host) example_source [5, 6] =
     (Some (Message ''HOSTS environment variable must be set with at least one host''), [])"
    using missing_list_is_fatal [OF h2, of example_provider example_source "[5, 6]"] rate(2)
      nonempty host
    by blast
  from ip rate(1) first second parsed(1) third show ?thesis
    by blast
qed

text \<open>
  C8. In the fixed allow-list variant every record printed has its method, its
  forwarded-for address, its path, its status code and its host from the list configured
  for the field, and its remote address equal to the forwarded-for address; with
  \<open>IP_ADDRESSES = 10.0.0.1\<close> and \<open>HTTP_METHODS = GET\<close> every record has the method
  \<open>GET\<close> and the address \<open>10.0.0.1\<close> in both address fields.
\<close>

theorem fixed_values_from_lists:
  "\<forall>entry \<in> set (snd (main_fixed fk (Some cfg) g ticks)).
     XForwardFor (Nginx entry) \<in> set (parseEnvList (IPAddresses cfg)) \<and>
     RemoteAddr (Nginx entry) = XForwardFor (Nginx entry) \<and>
     Method (HTTP entry) \<in> set (parseEnvList (HTTPMethods cfg)) \<and>
     URI (HTTP entry) \<in> set (parseEnvList (Paths cfg)) \<and>
     StatusCode (HTTP entry) \<in> set (parseEnvIntList (StatusCodes cfg)) \<and>
     Host (HTTP entry) \<in> set (parseEnvList (Hosts cfg)) \<and>
     (IPAddresses cfg = ''10.0.0.1'' \<longrightarrow>
        XForwardFor (Nginx entry) = ''10.0.0.1'' \<and> RemoteAddr (Nginx entry) = ''10.0.0.1'') \<and>
     (HTTPMethods cfg = ''GET'' \<longrightarrow> Method (HTTP entry) = ''GET'')"
proof (rule main_fixed_entries)
  fix timeLocal g entry g'
  assume "tick_fixed fk (env_lists cfg) timeLocal g = Inr (entry, g')"
  from tick_fixed_fields [OF this]
  have mem: "XForwardFor (Nginx entry) \<in> set (parseEnvList (IPAddresses cfg))"
      "RemoteAddr (Nginx entry) = XForwardFor (Nginx entry)"
      "Method (HTTP entry) \<in> set (parseEnvList (HTTPMethods cfg))"
      "URI (HTTP entry) \<in> set (parseEnvList (Paths cfg))"
      "StatusCode (HTTP entry) \<in> set (parseEnvIntList (StatusCodes cfg))"
      "Host (HTTP entry) \<in> set (parseEnvList (Hosts cfg))"
    by (simp_all add: env_lists_def)
  have ip: "parseEnvList ''10.0.0.1'' = [''10.0.0.1'']"
    by (simp add: parseEnvList_def trim_eval)
  have get: "parseEnvList ''GET'' = [''GET'']"
    by (simp add: parseEnvList_def trim_eval)
  from mem ip get
  show "XForwardFor (Nginx entry) \<in> set (parseEnvList (IPAddresses cfg)) \<and>
     RemoteAddr (Nginx entry) = XForwardFor (Nginx entry) \<and>
     Method (HTTP entry) \<in> set (parseEnvList (HTTPMethods cfg)) \<and>
     URI (HTTP entry) \<in> set (parseEnvList (Paths cfg)) \<and>
     StatusCode (HTTP entry) \<in> set (parseEnvIntList (StatusCodes cfg)) \<and>
     Host (HTTP entry) \<in> set (parseEnvList (Hosts cfg)) \<and>
     (IPAddresses cfg = ''10.0.0.1'' \<longrightarrow>
        XForwardFor (Nginx entry) = ''10.0.0.1'' \<and> RemoteAddr (Nginx entry) = ''10.0.0.1'') \<and>
     (HTTPMethods cfg = ''GET'' \<longrightarrow> Method (HTTP entry) = ''GET'')"
    by auto
qed

theorem fixed_values_from_lists_witness:
  "IPAddresses example_lists = ''10.0.0.1'' \<and> HTTPMethods example_lists = ''GET'' \<and>
   length (snd (main_fixed example_provider (Some example_lists) example_source [5, 6])) = 2 \<and>
   list_all (\<lambda>entry. Method (HTTP entry) = ''GET'' \<and> XForwardFor (Nginx entry) = ''10.0.0.1'' \<and>
               RemoteAddr (Nginx entry) = ''10.0.0.1'')
     (snd (main_fixed example_provider (Some example_lists) example_source [5, 6]))"
proof -
  have cfg: "IPAddresses example_lists = ''10.0.0.1''" "HTTPMethods example_lists = ''GET''"
    by (simp_all add: example_lists_def)
  from fixed_values_from_lists [of example_provider example_lists example_source "[5, 6]"]
  have "list_all (\<lambda>entry. Method (HTTP entry) = ''GET'' \<and> XForwardFor (Nginx entry) = ''10.0.0.1'' \<and>
               RemoteAddr (Nginx entry) = ''10.0.0.1'')
     (snd (main_fixed example_provider (Some example_lists) example_source [5, 6]))"
    unfolding list_all_iff using cfg by blast
  with cfg example_fixed_length show ?thesis by simp
qed

subsection \<open>Status codes that do not parse\<close>

lemma int_parts_map_filter:
  "int_parts parts result = result @ List.map_filter (\<lambda>part. Atoi (TrimSpace part)) parts"
  by (induction parts arbitrary: result) (simp_all add: map_filter_simps split: option.splits)

lemma map_filter_none:
  "(\<forall>x \<in> set xs. f x = None) \<Longrightarrow> List.map_filter f xs = []"
  by (induction xs) (simp_all add: map_filter_simps)

lemma env_lists_no_codes:
  assumes "parseEnvIntList s = []"
  shows "env_lists (cfg\<lparr>StatusCodes := s\<rparr>) = env_lists (cfg\<lparr>StatusCodes := []\<rparr>)"
  using assms by (simp add: env_lists_def parseEnvIntList_def)

text \<open>
  C9. \<open>parseEnvIntList\<close> returns the integers of the comma-separated tokens that
  \<open>Atoi\<close> accepts (each trimmed), in order, and nothing for the others; it returns
  nothing else, so a token dropped leaves no trace. When no token parses the list is
  empty and \<open>main\<close> behaves as for an unset \<open>STATUS_CODES\<close>: it panics before the loop
  and prints no record.
\<close>

theorem parseEnvIntList_discards:
  "parseEnvIntList s =
     (if s = [] then []
      else List.map_filter (\<lambda>part. Atoi (TrimSpace part)) (Split (TrimSpace s) CHR '','')) \<and>
   ((\<forall>part \<in> set (Split (TrimSpace s) CHR '',''). Atoi (TrimSpace part) = None) \<longrightarrow>
      parseEnvIntList s = [] \<and>
      main_fixed fk (Some (cfg\<lparr>StatusCodes := s\<rparr>)) g ticks =
        main_fixed fk (Some (cfg\<lparr>StatusCodes := []\<rparr>)) g ticks \<and>
      (\<exists>p. main_fixed fk (Some (cfg\<lparr>StatusCodes := s\<rparr>)) g ticks = (Some p, [])))"
proof -
  have form: "parseEnvIntList s =
     (if s = [] then []
      else List.map_filter (\<lambda>part. Atoi (TrimSpace part)) (Split (TrimSpace s) CHR '',''))"
    by (simp add: parseEnvIntList_def int_parts_map_filter)
  moreover have "parseEnvIntList s = [] \<and>
      main_fixed fk (Some (cfg\<lparr>StatusCodes := s\<rparr>)) g ticks =
        main_fixed fk (Some (cfg\<lparr>StatusCodes := []\<rparr>)) g ticks \<and>
      (\<exists>p. main_fixed fk (Some (cfg\<lparr>StatusCodes := s\<rparr>)) g ticks = (Some p, []))"
    if none: "\<forall>part \<in> set (Split (TrimSpace s) CHR '',''). Atoi (TrimSpace part) = None"
  proof -
    from none have empty: "parseEnvIntList s = []"
      by (simp add: form map_filter_none)
    have same: "main_fixed fk (Some (cfg\<lparr>StatusCodes := s\<rparr>)) g ticks =
        main_fixed fk (Some (cfg\<lparr>StatusCodes := []\<rparr>)) g ticks"
      by (simp add: main_fixed_cases env_lists_no_codes [OF empty])
        (simp add: env_lists_def parseEnvIntList_def)
    have "statusCodeList (env_lists (cfg\<lparr>StatusCodes := s\<rparr>)) = []"
      using empty by (simp add: env_lists_def)
    then have "\<exists>p. main_fixed fk (Some (cfg\<lparr>StatusCodes := s\<rparr>)) g ticks = (Some p, [])"
      by (simp only: main_fixed_cases) (auto split: sum.splits)
    with empty same show ?thesis by blast
  qed
  ultimately show ?thesis by blast
qed

theorem parseEnvIntList_discards_witness:
  "parseEnvIntList ''abc,x'' = [] \<and>
   parseEnvIntList ''200, abc,404 '' = [200, 404] \<and>
   main_fixed example_provider (Some (example_lists\<lparr>StatusCodes := ''abc,x''\<rparr>)) example_source [5, 6] =
     main_fixed example_provider (Some (example_lists\<lparr>StatusCodes := []\<rparr>)) example_source [5, 6] \<and>
   main_fixed example_provider (Some (example_lists\<lparr>StatusCodes := []\<rparr>)) example_source [5, 6] =
     (Some (Message ''STATUS_CODES environment variable must be set with at least one status code''),
      [])"
proof -
  have none: "\<forall>part \<in> set (Split (TrimSpace ''abc,x'') CHR '',''). Atoi (TrimSpace part) = None"
    by (simp add: trim_eval atoi_eval)
  have mixed: "parseEnvIntList ''200, abc,404 '' = [200, 404]"
    by (simp add: parseEnvIntList_def trim_eval atoi_eval)
  have lists: "env_lists (example_lists\<lparr>StatusCodes := []\<rparr>) =
      (env_lists example_lists)\<lparr>statusCodeList := []\<rparr>"
    by (simp add: env_lists_def parseEnvIntList_def)
  have unset: "main_fixed example_provider (Some (example_lists\<lparr>StatusCodes := []\<rparr>))
      example_source [5, 6] =
     (Some (Message ''STATUS_CODES environment variable must be set with at least one status code''),
      [])"
    by (simp add: main_fixed_cases lists example_lists_parsed)
      (simp add: example_lists_def example_ticker)
  from parseEnvIntList_discards
    [of "''abc,x''" example_provider example_lists example_source "[5, 6]"] none
  have "parseEnvIntList ''abc,x'' = [] \<and>
      main_fixed example_provider (Some (example_lists\<lparr>StatusCodes := ''abc,x''\<rparr>))
        example_source [5, 6] =
      main_fixed example_provider (Some (example_lists\<lparr>StatusCodes := []\<rparr>)) example_source [5, 6]"
    by blast
  with mixed unset show ?thesis by simp
qed

subsection \<open>Constant fields\<close>

lemma main_fixed_all_entries:
  assumes "\<And>ls timeLocal g entry g'. tick_fixed fk ls timeLocal g = Inr (entry, g') \<Longrightarrow> P entry"
  shows "\<forall>entry \<in> set (snd (main_fixed fk parsed g ticks)). P entry"
proof (cases parsed)
  case None
  then show ?thesis by (simp add: main_fixed_def)
next
  case (Some cfg)
  then show ?thesis using main_fixed_entries [of fk cfg P g ticks] assms by blast
qed

lemma example_weighted_run:
  "map (\<lambda>e. (Method (HTTP e), StatusCode (HTTP e), BytesSent (HTTP e), Protocol (HTTP e),
            ServerProtocol (HTTP e), ContentType (HTTP e), TraceSessionID (HTTP e),
            XForwardFor (Nginx e), RemoteAddr (Nginx e)))
     (snd (main_weighted example_provider (Some example_config) example_source [5])) =
   [(''GET'', 200, ''908'', ''HTTP/1.1'', ''HTTP/1.1'', ''application/json'', [], ''192.0.2.7'', [])]"
  by (simp add: main_weighted_def example_config_def checkMinMax_def example_ticker
      tick_weighted_def and_then_def weightedIPVersion_def weightedHTTPMethod_def
      weightedStatusCode_def realisticBytesSent_weighted_def randomPath_def path_loop.simps
      RandomString_def separators_def extensions_def Number_def randIntRange_def
      draw_with_def next_draw_def example_source_def example_provider_def add64_def wrap64_def
      Sprintf_d_def digits10.simps digit_char_simps Let_def)

lemma example_weighted_length:
  "length (snd (main_weighted example_provider (Some example_config) example_source [5])) = 1"
  using arg_cong [OF example_weighted_run, of length] by simp

text \<open>
  C10. Every record printed, in both variants, has the protocol and the server protocol
  \<open>HTTP/1.1\<close>, the content type \<open>application/json\<close> and an empty trace session id; in
  the weighted variant the remote address is empty, in the fixed allow-list variant it
  equals the forwarded-for address.
\<close>

theorem constant_fields:
  "(\<forall>entry \<in> set (snd (main_weighted fk parsed g ticks)).
      Protocol (HTTP entry) = ''HTTP/1.1'' \<and> ServerProtocol (HTTP entry) = ''HTTP/1.1'' \<and>
      ContentType (HTTP entry) = ''application/json'' \<and> TraceSessionID (HTTP entry) = [] \<and>
      RemoteAddr (Nginx entry) = []) \<and>
   (\<forall>entry \<in> set (snd (main_fixed fk parsedF gF ticksF)).
      Protocol (HTTP entry) = ''HTTP/1.1'' \<and> ServerProtocol (HTTP entry) = ''HTTP/1.1'' \<and>
      ContentType (HTTP entry) = ''application/json'' \<and> TraceSessionID (HTTP entry) = [] \<and>
      RemoteAddr (Nginx entry) = XForwardFor (Nginx entry))"
proof
  show "\<forall>entry \<in> set (snd (main_weighted fk parsed g ticks)).
      Protocol (HTTP entry) = ''HTTP/1.1'' \<and> ServerProtocol (HTTP entry) = ''HTTP/1.1'' \<and>
      ContentType (HTTP entry) = ''application/json'' \<and> TraceSessionID (HTTP entry) = [] \<and>
      RemoteAddr (Nginx entry) = []"
    by (rule main_weighted_entries) (simp add: tick_weighted_fields)
next
  show "\<forall>entry \<in> set (snd (main_fixed fk parsedF gF ticksF)).
      Protocol (HTTP entry) = ''HTTP/1.1'' \<and> ServerProtocol (HTTP entry) = ''HTTP/1.1'' \<and>
      ContentType (HTTP entry) = ''application/json'' \<and> TraceSessionID (HTTP entry) = [] \<and>
      RemoteAddr (Nginx entry) = XForwardFor (Nginx entry)"
    by (rule main_fixed_all_entries) (simp add: tick_fixed_fields)
qed

theorem constant_fields_witness:
  "length (snd (main_weighted example_provider (Some example_config) example_source [5])) = 1 \<and>
   list_all (\<lambda>entry. Protocol (HTTP entry) = ''HTTP/1.1'' \<and> ServerProtocol (HTTP entry) = ''HTTP/1.1'' \<and>
      ContentType (HTTP entry) = ''application/json'' \<and> TraceSessionID (HTTP entry) = [] \<and>
      RemoteAddr (Nginx entry) = [])
     (snd (main_weighted example_provider (Some example_config) example_source [5])) \<and>
   length (snd (main_fixed example_provider (Some example_lists) example_source [5, 6])) = 2 \<and>
   list_all (\<lambda>entry. Protocol (HTTP entry) = ''HTTP/1.1'' \<and> ServerProtocol (HTTP entry) = ''HTTP/1.1'' \<and>
      ContentType (HTTP entry) = ''application/json'' \<and> TraceSessionID (HTTP entry) = [] \<and>
      RemoteAddr (Nginx entry) = XForwardFor (Nginx entry))
     (snd (main_fixed example_provider (Some example_lists) example_source [5, 6]))"
  unfolding list_all_iff
  using constant_fields [of example_provider "Some example_config" example_source "[5]"
      "Some example_lists" example_source "[5, 6]"]
    example_weighted_length example_fixed_length
  by blast

subsection \<open>The byte count of a record\<close>

lemma tick_weighted_bytes:
  assumes "tick_weighted fk cfg timeLocal g = Inr (entry, g')"
  shows "\<exists>b. BytesSent (HTTP entry) = Sprintf_d b \<and> Atoi (BytesSent (HTTP entry)) = Some b \<and>
           (StatusCode (HTTP entry) \<noteq> 200 \<longrightarrow> 30 \<le> b \<and> b \<le> 120) \<and>
           (StatusCode (HTTP entry) = 200 \<longrightarrow> 800 \<le> b \<and> b \<le> 3100)"
proof -
  from tick_weighted_fields [OF assms] obtain g4 where
    sent: "BytesSent (HTTP entry) =
             Sprintf_d (fst (realisticBytesSent_weighted (StatusCode (HTTP entry)) g4))"
    by blast
  let ?b = "fst (realisticBytesSent_weighted (StatusCode (HTTP entry)) g4)"
  have bands: "(StatusCode (HTTP entry) \<noteq> 200 \<longrightarrow> 30 \<le> ?b \<and> ?b \<le> 120) \<and>
      (StatusCode (HTTP entry) = 200 \<longrightarrow> 800 \<le> ?b \<and> ?b \<le> 3100)"
    by (rule bytes_weighted)
  then have "0 \<le> ?b" and "?b < 2 ^ 63"
    by (cases "StatusCode (HTTP entry) = 200"; simp)+
  then have "Atoi (Sprintf_d ?b) = Some ?b"
    by (rule Atoi_Sprintf_d)
  with sent bands show ?thesis by auto
qed

lemma tick_fixed_bytes:
  assumes "tick_fixed fk ls timeLocal g = Inr (entry, g')"
  shows "\<exists>b. BytesSent (HTTP entry) = Sprintf_d b \<and> Atoi (BytesSent (HTTP entry)) = Some b \<and>
           (400 \<le> StatusCode (HTTP entry) \<longrightarrow> 30 \<le> b \<and> b \<le> 119) \<and>
           (StatusCode (HTTP entry) < 400 \<longrightarrow> 800 \<le> b \<and> b \<le> 3099)"
proof -
  from tick_fixed_fields [OF assms] obtain g5 b g6 where
    drawn: "realisticBytesSent_fixed (StatusCode (HTTP entry)) g5 = Inr (b, g6)" and
    sent: "BytesSent (HTTP entry) = Sprintf_d b"
    by blast
  from bytes_fixed [of "StatusCode (HTTP entry)" g5] drawn
  have bands: "(400 \<le> StatusCode (HTTP entry) \<longrightarrow> 30 \<le> b \<and> b \<le> 119) \<and>
      (StatusCode (HTTP entry) < 400 \<longrightarrow> 800 \<le> b \<and> b \<le> 3099)"
    by auto
  then have "0 \<le> b" and "b < 2 ^ 63"
    by (cases "400 \<le> StatusCode (HTTP entry)"; simp)+
  then have "Atoi (Sprintf_d b) = Some b"
    by (rule Atoi_Sprintf_d)
  with sent bands show ?thesis by auto
qed

text \<open>
  C1, as the code has it. In the weighted variant \<open>realisticBytesSent\<close> returns a number
  from 30 to 120 for every status code other than 200 and a number from 800 to 3100 for
  200. In the fixed allow-list variant it never fails and divides at 400: a number from
  30 to 119 for a status code of 400 or more, and from 800 to 3099 for every other one.
  In both variants the field \<open>bytes_sent\<close> of every record printed is the decimal
  string of that number for the record's status code (\<open>Atoi\<close> reads the number back).
\<close>

theorem byte_count_bands:
  "(statusCode \<noteq> 200 \<longrightarrow> 30 \<le> fst (realisticBytesSent_weighted statusCode g) \<and>
       fst (realisticBytesSent_weighted statusCode g) \<le> 120) \<and>
   (statusCode = 200 \<longrightarrow> 800 \<le> fst (realisticBytesSent_weighted statusCode g) \<and>
       fst (realisticBytesSent_weighted statusCode g) \<le> 3100) \<and>
   (\<exists>b g'. realisticBytesSent_fixed statusCode g = Inr (b, g') \<and>
      (400 \<le> statusCode \<longrightarrow> 30 \<le> b \<and> b \<le> 119) \<and>
      (statusCode < 400 \<longrightarrow> 800 \<le> b \<and> b \<le> 3099)) \<and>
   (\<forall>entry \<in> set (snd (main_weighted fk parsed gW ticks)).
      \<exists>b. BytesSent (HTTP entry) = Sprintf_d b \<and> Atoi (BytesSent (HTTP entry)) = Some b \<and>
        (StatusCode (HTTP entry) \<noteq> 200 \<longrightarrow> 30 \<le> b \<and> b \<le> 120) \<and>
        (StatusCode (HTTP entry) = 200 \<longrightarrow> 800 \<le> b \<and> b \<le> 3100)) \<and>
   (\<forall>entry \<in> set (snd (main_fixed fk parsedF gF ticksF)).
      \<exists>b. BytesSent (HTTP entry) = Sprintf_d b \<and> Atoi (BytesSent (HTTP entry)) = Some b \<and>
        (400 \<le> StatusCode (HTTP entry) \<longrightarrow> 30 \<le> b \<and> b \<le> 119) \<and>
        (StatusCode (HTTP entry) < 400 \<longrightarrow> 800 \<le> b \<and> b \<le> 3099))"
proof -
  have "\<forall>entry \<in> set (snd (main_weighted fk parsed gW ticks)).
      \<exists>b. BytesSent (HTTP entry) = Sprintf_d b \<and> Atoi (BytesSent (HTTP entry)) = Some b \<and>
        (StatusCode (HTTP entry) \<noteq> 200 \<longrightarrow> 30 \<le> b \<and> b \<le> 120) \<and>
        (StatusCode (HTTP entry) = 200 \<longrightarrow> 800 \<le> b \<and> b \<le> 3100)"
    by (rule main_weighted_entries) (rule tick_weighted_bytes)
  moreover have "\<forall>entry \<in> set (snd (main_fixed fk parsedF gF ticksF)).
      \<exists>b. BytesSent (HTTP entry) = Sprintf_d b \<and> Atoi (BytesSent (HTTP entry)) = Some b \<and>
        (400 \<le> StatusCode (HTTP entry) \<longrightarrow> 30 \<le> b \<and> b \<le> 119) \<and>
        (StatusCode (HTTP entry) < 400 \<longrightarrow> 800 \<le> b \<and> b \<le> 3099)"
    by (rule main_fixed_all_entries) (rule tick_fixed_bytes)
  ultimately show ?thesis
    using bytes_weighted [of statusCode g] bytes_fixed [of statusCode g] by blast
qed

text \<open>
  In the fixed allow-list variant the status code 301 is not 200 and its byte count, 803
  here, is above 120.
\<close>

theorem byte_count_fixed_counterexample:
  "(301::int) \<noteq> 200 \<and>
   map_sum id fst (realisticBytesSent_fixed 301 example_source) = Inr 803 \<and>
   \<not> (803::int) \<le> 120"
  using bytes_fixed_301 by simp

theorem byte_count_bands_witness:
  "fst (realisticBytesSent_weighted 404 example_source) = 33 \<and>
   30 \<le> fst (realisticBytesSent_weighted 404 example_source) \<and>
   fst (realisticBytesSent_weighted 404 example_source) \<le> 120 \<and>
   (\<exists>b g'. realisticBytesSent_fixed 404 example_source = Inr (b, g') \<and> 30 \<le> b \<and> b \<le> 119) \<and>
   map (\<lambda>e. (StatusCode (HTTP e), BytesSent (HTTP e)))
     (snd (main_weighted example_provider (Some example_config) example_source [5])) =
     [(200, ''908'')] \<and>
   list_all (\<lambda>entry. \<exists>b. BytesSent (HTTP entry) = Sprintf_d b \<and> 800 \<le> b \<and> b \<le> 3100)
     (snd (main_weighted example_provider (Some example_config) example_source [5]))"
proof -
  have value_404: "fst (realisticBytesSent_weighted 404 example_source) = 33"
    by (simp add: realisticBytesSent_weighted_def Number_def draw_with_def next_draw_def
        randIntRange_def example_source_def)
  have run: "map (\<lambda>e. (StatusCode (HTTP e), BytesSent (HTTP e)))
     (snd (main_weighted example_provider (Some example_config) example_source [5])) =
     [(200, ''908'')]"
    using arg_cong [OF example_weighted_run,
        of "map (\<lambda>(m, s, b, r). (s, b))"]
    by (simp add: comp_def)
  then have ok: "\<forall>entry \<in> set (snd (main_weighted example_provider (Some example_config)
      example_source [5])). StatusCode (HTTP entry) = 200"
    by (auto simp: map_eq_Cons_conv)
  note inst = byte_count_bands [of 404 example_source example_provider "Some example_config"
      example_source "[5]"]
  from inst have "30 \<le> fst (realisticBytesSent_weighted 404 example_source) \<and>
      fst (realisticBytesSent_weighted 404 example_source) \<le> 120"
    by simp
  moreover from inst
  have "\<exists>b g'. realisticBytesSent_fixed 404 example_source = Inr (b, g') \<and> 30 \<le> b \<and> b \<le> 119"
    by simp
  moreover from inst ok
  have "list_all (\<lambda>entry. \<exists>b. BytesSent (HTTP entry) = Sprintf_d b \<and> 800 \<le> b \<and> b \<le> 3100)
     (snd (main_weighted example_provider (Some example_config) example_source [5]))"
    unfolding list_all_iff by blast
  ultimately show ?thesis using value_404 run by blast
qed

end
